theory Spec2Isabelle
  imports Complex_Main
begin

section \<open>JavaScript values, exceptions and the network\<close>

text \<open>
  A value as JavaScript holds it after \<open>response.json()\<close>, plus \<open>undefined\<close>, which a
  property read yields for an absent key. A string is the list of its code units, so
  \<open>length\<close> and \<open>take\<close> count what \<open>.length\<close> and \<open>.slice\<close> count. A number is the
  number the JSON text denotes; the rounding to a double is not modelled. An object is the
  list of its own properties, keys distinct.
\<close>

datatype jsval =
    Undefined
  | JNull
  | JBool bool
  | JNum rat
  | JStr string
  | JArr "jsval list"
  | JObj "(string \<times> jsval) list"

text \<open>A thrown \<open>Error\<close>, by its \<open>message\<close>.\<close>

datatype exn = Error (message: string)

text \<open>Sequencing of computations that may throw: the first exception wins.\<close>

definition and_then :: "exn + 'a \<Rightarrow> ('a \<Rightarrow> exn + 'b) \<Rightarrow> exn + 'b" where
  "and_then m f = (case m of Inl e \<Rightarrow> Inl e | Inr x \<Rightarrow> f x)"

text \<open>\<open>if (c) throw new Error(msg)\<close>\<close>

definition throw_if :: "bool \<Rightarrow> string \<Rightarrow> exn + unit" where
  "throw_if c msg = (if c then Inl (Error msg) else Inr ())"

text \<open>JavaScript truthiness: \<open>!v\<close> is \<open>\<not> truthy v\<close>.\<close>

fun truthy :: "jsval \<Rightarrow> bool" where
  "truthy Undefined = False"
| "truthy JNull = False"
| "truthy (JBool b) = b"
| "truthy (JNum n) = (n \<noteq> 0)"
| "truthy (JStr s) = (s \<noteq> [])"
| "truthy (JArr _) = True"
| "truthy (JObj _) = True"

text \<open>Truthiness of an optional string (\<open>string | undefined\<close>): set and not empty.\<close>

definition truthy_str :: "string option \<Rightarrow> bool" where
  "truthy_str s = (case s of None \<Rightarrow> False | Some x \<Rightarrow> x \<noteq> [])"

text \<open>
  \<open>v.k\<close> for a key \<open>k\<close> that no prototype defines (\<open>data\<close>, \<open>value\<close>, \<open>supply\<close>, ...):
  reading a property of \<open>null\<close> or \<open>undefined\<close> throws a TypeError, an object yields its
  own property or \<open>undefined\<close>, every other value yields \<open>undefined\<close>.
\<close>

definition get_prop :: "jsval \<Rightarrow> string \<Rightarrow> exn + jsval" where
  "get_prop v k =
     (case v of
        Undefined \<Rightarrow>
          Inl (Error (''Cannot read properties of undefined (reading '' @ [CHR 0x27] @ k @ [CHR 0x27] @ '')''))
      | JNull \<Rightarrow>
          Inl (Error (''Cannot read properties of null (reading '' @ [CHR 0x27] @ k @ [CHR 0x27] @ '')''))
      | JObj kvs \<Rightarrow> Inr (case map_of kvs k of None \<Rightarrow> Undefined | Some x \<Rightarrow> x)
      | _ \<Rightarrow> Inr Undefined)"

text \<open>\<open>v?.k\<close>: \<open>undefined\<close> when \<open>v\<close> is \<open>null\<close> or \<open>undefined\<close>, never a throw.\<close>

definition get_prop_opt :: "jsval \<Rightarrow> string \<Rightarrow> jsval" where
  "get_prop_opt v k =
     (case v of
        JObj kvs \<Rightarrow> (case map_of kvs k of None \<Rightarrow> Undefined | Some x \<Rightarrow> x)
      | _ \<Rightarrow> Undefined)"

text \<open>\<open>v.length\<close>: the length of a string or an array, the own property of an object.\<close>

definition get_length :: "jsval \<Rightarrow> exn + jsval" where
  "get_length v =
     (case v of
        JStr s \<Rightarrow> Inr (JNum (of_nat (length s)))
      | JArr xs \<Rightarrow> Inr (JNum (of_nat (length xs)))
      | _ \<Rightarrow> get_prop v ''length'')"

text \<open>\<open>v[0]\<close>: the first element or code unit, the own property \<open>"0"\<close> of an object.\<close>

definition get_index0 :: "jsval \<Rightarrow> exn + jsval" where
  "get_index0 v =
     (case v of
        JStr s \<Rightarrow> Inr (case s of [] \<Rightarrow> Undefined | c # _ \<Rightarrow> JStr [c])
      | JArr xs \<Rightarrow> Inr (case xs of [] \<Rightarrow> Undefined | x # _ \<Rightarrow> x)
      | _ \<Rightarrow> get_prop v ''0'')"

text \<open>
  \<open>v.slice(0, n)\<close>: strings and arrays have the method; values parsed from JSON hold no
  function, so on anything else the call throws a TypeError.
\<close>

definition slice0 :: "jsval \<Rightarrow> nat \<Rightarrow> exn + jsval" where
  "slice0 v n =
     (case v of
        JStr s \<Rightarrow> Inr (JStr (take n s))
      | JArr xs \<Rightarrow> Inr (JArr (take n xs))
      | Undefined \<Rightarrow> Inl (Error (''Cannot read properties of undefined (reading '' @ [CHR 0x27] @ ''slice'' @ [CHR 0x27] @ '')''))
      | JNull \<Rightarrow> Inl (Error (''Cannot read properties of null (reading '' @ [CHR 0x27] @ ''slice'' @ [CHR 0x27] @ '')''))
      | _ \<Rightarrow> Inl (Error ''slice is not a function''))"

text \<open>A non-negative integer in a template literal: its decimal digits.\<close>

fun show_nat :: "nat \<Rightarrow> string" where
  "show_nat n =
     (if n < 10 then [''0123456789'' ! n]
      else show_nat (n div 10) @ [''0123456789'' ! (n mod 10)])"

declare show_nat.simps [simp del]

text \<open>\<open>Array.prototype.join\<close> on an array of strings.\<close>

fun join :: "string \<Rightarrow> string list \<Rightarrow> string" where
  "join sep [] = []"
| "join sep [x] = x"
| "join sep (x # y # ys) = x @ sep @ join sep (y # ys)"

text \<open>
  A \<open>fetch\<close> call: the request, and what comes back. \<open>fetch\<close> rejects on a transport
  error; \<open>response.json()\<close> rejects when the body is not JSON. The body of a request is
  the value handed to \<open>JSON.stringify\<close>.
\<close>

record http_request =
  req_url :: string
  req_method :: string
  req_headers :: "(string \<times> string) list"
  req_body :: "jsval option"

record http_response =
  ok :: bool
  status :: nat
  statusText :: string
  json :: "exn + jsval"

text \<open>
  What the code reads from outside itself: \<open>process.env\<close>, the network behind \<open>fetch\<close>,
  and the clock behind \<open>new Date().toISOString()\<close>.
\<close>

record world =
  BIRDEYE_API_KEY :: "string option"
  TAVILY_API_KEY :: "string option"
  JINA_API_KEY :: "string option"
  fetch :: "http_request \<Rightarrow> exn + http_response"
  now_iso :: string

section \<open>The market-data tool (lib/tools/solanaTokenMarketData.ts)\<close>

record SolanaTokenMarketDataParams =
  tokenSymbol :: "string option"
  tokenMintAddress :: "string option"

record BirdeyeData =
  b_price :: jsval
  b_volume24h :: jsval
  b_liquidity :: jsval
  b_mc :: jsval
  b_source :: "string option"
  b_url :: "string option"
  b_error :: "string option"

record SolscanData =
  s_price :: jsval
  s_marketCap :: jsval
  s_circulatingSupply :: jsval
  s_totalSupply :: jsval
  s_holders :: jsval
  s_source :: "string option"
  s_url :: "string option"
  s_error :: "string option"

record CombinedMarketData =
  c_tokenSymbol :: "string option"
  c_tokenMintAddress :: "string option"
  birdeye :: "BirdeyeData option"
  solscan :: "SolscanData option"
  lastUpdated :: "string option"
  errors :: "string list option"

text \<open>The object literal \<open>{}\<close> of each type: every field absent.\<close>

definition no_birdeye :: BirdeyeData where
  "no_birdeye =
     \<lparr>b_price = Undefined, b_volume24h = Undefined, b_liquidity = Undefined, b_mc = Undefined,
      b_source = None, b_url = None, b_error = None\<rparr>"

definition no_solscan :: SolscanData where
  "no_solscan =
     \<lparr>s_price = Undefined, s_marketCap = Undefined, s_circulatingSupply = Undefined,
      s_totalSupply = Undefined, s_holders = Undefined,
      s_source = None, s_url = None, s_error = None\<rparr>"

text \<open>The \<open>try\<close> block of \<open>fetchBirdeyeData\<close>: two requests, then the result object.\<close>

definition birdeye_try :: "world \<Rightarrow> string \<Rightarrow> string \<Rightarrow> exn + BirdeyeData" where
  "birdeye_try w birdeyeApiKey mint =
     and_then (fetch w \<lparr>req_url = ''https://public-api.birdeye.so/public/price?address='' @ mint,
                        req_method = ''GET'', req_headers = [(''X-API-KEY'', birdeyeApiKey)],
                        req_body = None\<rparr>) (\<lambda>response.
     and_then (throw_if (\<not> ok response)
                 (''Birdeye API error (price): '' @ show_nat (status response))) (\<lambda>_.
     and_then (json response) (\<lambda>priceData.
     and_then (fetch w \<lparr>req_url = ''https://public-api.birdeye.so/public/overview/token/'' @ mint,
                        req_method = ''GET'', req_headers = [(''X-API-KEY'', birdeyeApiKey)],
                        req_body = None\<rparr>) (\<lambda>overviewResponse.
     and_then (throw_if (\<not> ok overviewResponse)
                 (''Birdeye API error (overview): '' @ show_nat (status overviewResponse))) (\<lambda>_.
     and_then (json overviewResponse) (\<lambda>overviewData.
     and_then (get_prop priceData ''data'') (\<lambda>d.
       Inr (no_birdeye\<lparr>b_price := get_prop_opt d ''value'',
                       b_source := Some ''Birdeye API'',
                       b_url := Some (''https://birdeye.so/token/'' @ mint @ ''?chain=solana'')\<rparr>))))))))"

definition fetchBirdeyeData :: "world \<Rightarrow> SolanaTokenMarketDataParams \<Rightarrow> BirdeyeData" where
  "fetchBirdeyeData w params =
     (if \<not> truthy_str (BIRDEYE_API_KEY w)
      then no_birdeye\<lparr>b_error := Some ''Birdeye API key not configured.'',
                      b_source := Some ''Birdeye''\<rparr>
      else if truthy_str (tokenMintAddress params)
      then (case birdeye_try w (the (BIRDEYE_API_KEY w)) (the (tokenMintAddress params)) of
              Inr r \<Rightarrow> r
            | Inl e \<Rightarrow> no_birdeye\<lparr>b_error := Some (''Birdeye API fetch error: '' @ message e),
                                   b_source := Some ''Birdeye''\<rparr>)
      else no_birdeye\<lparr>b_error := Some ''Birdeye: Mint address preferred for precise data.'',
                      b_source := Some ''Birdeye''\<rparr>)"

text \<open>The \<open>try\<close> block of \<open>fetchSolscanData\<close>.\<close>

definition solscan_try :: "world \<Rightarrow> string \<Rightarrow> exn + SolscanData" where
  "solscan_try w mint =
     and_then (fetch w \<lparr>req_url = ''https://public-api.solscan.io/token/meta?tokenAddress='' @ mint,
                        req_method = ''GET'', req_headers = [], req_body = None\<rparr>) (\<lambda>response.
     and_then (throw_if (\<not> ok response)
                 (''Solscan API error: '' @ show_nat (status response))) (\<lambda>_.
     and_then (json response) (\<lambda>d.
     and_then (get_prop d ''marketCapFD'') (\<lambda>marketCapFD.
     and_then (get_prop d ''supply'') (\<lambda>supply.
     and_then (get_prop d ''holder'') (\<lambda>holder.
       Inr (no_solscan\<lparr>s_marketCap := marketCapFD,
                       s_circulatingSupply := supply,
                       s_totalSupply := supply,
                       s_holders := holder,
                       s_source := Some ''Solscan API'',
                       s_url := Some (''https://solscan.io/token/'' @ mint)\<rparr>)))))))"

definition fetchSolscanData :: "world \<Rightarrow> SolanaTokenMarketDataParams \<Rightarrow> SolscanData" where
  "fetchSolscanData w params =
     (if truthy_str (tokenMintAddress params)
      then (case solscan_try w (the (tokenMintAddress params)) of
              Inr r \<Rightarrow> r
            | Inl e \<Rightarrow> no_solscan\<lparr>s_error := Some (''Solscan API fetch error: '' @ message e),
                                   s_source := Some ''Solscan''\<rparr>)
      else no_solscan\<lparr>s_error := Some ''Solscan: Mint address required for precise data.'',
                      s_source := Some ''Solscan''\<rparr>)"

text \<open>What \<open>getSolanaTokenMarketDataTool.execute\<close> returns: the aggregate, or the object \<open>{ error }\<close>.\<close>

datatype market_result =
    ErrorObject string
  | Aggregate CombinedMarketData

text \<open>\<open>if (r.error) results.errors?.push(r.error)\<close>\<close>

definition push_error :: "string option \<Rightarrow> CombinedMarketData \<Rightarrow> CombinedMarketData" where
  "push_error e results =
     (if truthy_str e then results\<lparr>errors := map_option (\<lambda>es. es @ [the e]) (errors results)\<rparr>
      else results)"

text \<open>\<open>results.errors?.length || 0\<close>\<close>

definition errors_length :: "CombinedMarketData \<Rightarrow> nat" where
  "errors_length results = (case errors results of None \<Rightarrow> 0 | Some es \<Rightarrow> length es)"

text \<open>\<open>results.errors?.join('; ')\<close> inside a template literal.\<close>

definition errors_joined :: "CombinedMarketData \<Rightarrow> string" where
  "errors_joined results =
     (case errors results of None \<Rightarrow> ''undefined'' | Some es \<Rightarrow> join ''; '' es)"

definition getSolanaTokenMarketDataTool_execute :: "world \<Rightarrow> SolanaTokenMarketDataParams \<Rightarrow> market_result" where
  "getSolanaTokenMarketDataTool_execute w params =
     (if \<not> truthy_str (tokenSymbol params) \<and> \<not> truthy_str (tokenMintAddress params)
      then ErrorObject ''Tool execution error: Token symbol or mint address is required.''
      else
        let results0 = \<lparr>c_tokenSymbol = tokenSymbol params,
                        c_tokenMintAddress = tokenMintAddress params,
                        birdeye = None, solscan = None, lastUpdated = None,
                        errors = Some []\<rparr>;
            birdeyeResult = fetchBirdeyeData w params;
            results1 = (push_error (b_error birdeyeResult) results0)\<lparr>birdeye := Some birdeyeResult\<rparr>;
            solscanResult = fetchSolscanData w params;
            results2 = (push_error (s_error solscanResult) results1)\<lparr>solscan := Some solscanResult\<rparr>;
            results3 = results2\<lparr>lastUpdated := Some (now_iso w)\<rparr>
        in if \<not> truthy (b_price birdeyeResult) \<and> \<not> truthy (s_circulatingSupply solscanResult)
              \<and> errors_length results3 > 1
           then ErrorObject (''Failed to fetch significant market data. Errors: '' @ errors_joined results3)
           else Aggregate results3)"

section \<open>The tool-execution orchestrator (lib/streaming/tool-execution.ts)\<close>

text \<open>
  The version of \<open>executeToolCall\<close> that knows both tools, \<open>search\<close> and
  \<open>getSolanaTokenMarketDataTool\<close>.
\<close>

text \<open>
  A conversation turn. The orchestrator never looks inside the content of the turns it is
  given, and the two turns it builds carry text.
\<close>

datatype role = System | User | Assistant | Tool

record CoreMessage =
  role :: role
  content :: string

text \<open>
  The parameters object of a parsed tool call, by the fields the two schemas declare:
  strings, a number (\<open>max_results\<close>, never \<open>NaN\<close>) and string arrays. An absent key
  is \<open>None\<close>.
\<close>

record tool_parameters =
  p_query :: "string option"
  p_max_results :: "rat option"
  p_search_depth :: "string option"
  p_include_domains :: "string list option"
  p_exclude_domains :: "string list option"
  p_tokenSymbol :: "string option"
  p_tokenMintAddress :: "string option"

text \<open>The parameters object with no key: \<open>{}\<close>.\<close>

definition no_parameters :: tool_parameters where
  "no_parameters =
     \<lparr>p_query = None, p_max_results = None, p_search_depth = None, p_include_domains = None,
      p_exclude_domains = None, p_tokenSymbol = None, p_tokenMintAddress = None\<rparr>"

text \<open>What \<open>parseToolCallXml\<close> returns. An empty \<open>tool\<close> is falsy: no tool selected.\<close>

record ToolCall =
  tool :: string
  parameters :: "tool_parameters option"

datatype schema_ref = searchSchema | solanaTokenMarketDataSchema

text \<open>The arguments of one \<open>executeSearchViaApi\<close> call, in order.\<close>

record search_args =
  a_query :: string
  a_maxResults :: rat
  a_searchDepth :: string
  a_includeDomains :: "string list"
  a_excludeDomains :: "string list"

text \<open>
  The collaborators \<open>executeToolCall\<close> imports and this repository's sources do not hold:
  the model call \<open>generateText\<close> (by the model identifier and the messages handed to it;
  the system prompt is built from constants, the schemas and the clock), the call parser,
  \<open>generateId\<close> (the identifier its one call returns), the search client, and
  \<open>JSON.stringify\<close>. Each of the first four may throw.
\<close>

record collaborators =
  generateText :: "string \<Rightarrow> CoreMessage list \<Rightarrow> exn + string"
  parseToolCallXml :: "string \<Rightarrow> schema_ref option \<Rightarrow> exn + ToolCall"
  generateId :: string
  executeSearchViaApi :: "search_args \<Rightarrow> exn + jsval"
  JSON_stringify :: "jsval \<Rightarrow> string option"

text \<open>The \<open>data\<close> of a progress event written to the data stream.\<close>

datatype progress_state = StateCall | StateResult | StateError

record tool_call_data =
  state :: progress_state
  toolCallId :: string
  toolName :: string
  args :: "string option"
  result :: "string option"

text \<open>The \<open>data\<close> of the returned annotation (role \<open>data\<close>, type \<open>tool_call\<close>).\<close>

record tool_call_annotation =
  ann_toolCallId :: string
  ann_toolName :: string
  ann_args :: "string option"
  ann_result :: "string option"

record ToolExecutionResult =
  toolCallDataAnnotation :: "tool_call_annotation option"
  toolCallMessages :: "CoreMessage list"

text \<open>
  What a pass does to the outside, in order: writes to the data stream (which are taken
  not to throw) and calls of the two adapters.
\<close>

datatype effect =
    WriteData tool_call_data
  | WriteMessageAnnotation tool_call_data
  | SearchCalled search_args
  | MarketDataCalled SolanaTokenMarketDataParams

text \<open>
  The mutable objects \<open>executeToolCall\<close> holds references to: the conversation array
  and the data stream, the latter together with the adapter calls as one trace.
\<close>

record pass_state =
  coreMessages :: "CoreMessage list"
  trace :: "effect list"

text \<open>\<open>s.includes(t)\<close>\<close>

fun starts_with :: "string \<Rightarrow> string \<Rightarrow> bool" where
  "starts_with _ [] = True"
| "starts_with [] (_ # _) = False"
| "starts_with (c # cs) (d # ds) = (c = d \<and> starts_with cs ds)"

fun str_includes :: "string \<Rightarrow> string \<Rightarrow> bool" where
  "str_includes [] t = (t = [])"
| "str_includes (c # cs) t = (starts_with (c # cs) t \<or> str_includes cs t)"

text \<open>\<open>xs.slice(-Math.min(xs.length, 5))\<close>: the last five elements, or all of fewer.\<close>

definition last_five :: "'a list \<Rightarrow> 'a list" where
  "last_five xs = drop (length xs - min (length xs) 5) xs"

text \<open>A string or \<open>undefined\<close> inside a template literal.\<close>

definition template_str :: "string option \<Rightarrow> string" where
  "template_str s = (case s of None \<Rightarrow> ''undefined'' | Some x \<Rightarrow> x)"

text \<open>
  The objects handed to \<open>JSON.stringify\<close>, as values: own properties in the order the
  code's object literals and assignments create them, absent ones left out (as the
  serialisation leaves out \<open>undefined\<close>). A failed source is built as
  \<open>{ error, source }\<close> and a successful one holds no \<open>error\<close>, so \<open>error\<close> comes
  first in both source objects. The parameters object is the parser's; its keys are listed
  in the order the two schemas are used in the selection prompt.
\<close>

definition opt_str_field :: "string \<Rightarrow> string option \<Rightarrow> (string \<times> jsval) list" where
  "opt_str_field k v = (case v of None \<Rightarrow> [] | Some s \<Rightarrow> [(k, JStr s)])"

definition opt_list_field :: "string \<Rightarrow> string list option \<Rightarrow> (string \<times> jsval) list" where
  "opt_list_field k v = (case v of None \<Rightarrow> [] | Some xs \<Rightarrow> [(k, JArr (map JStr xs))])"

definition opt_js_field :: "string \<Rightarrow> jsval \<Rightarrow> (string \<times> jsval) list" where
  "opt_js_field k v = (if v = Undefined then [] else [(k, v)])"

definition js_of_parameters :: "tool_parameters option \<Rightarrow> jsval" where
  "js_of_parameters ps =
     (case ps of
        None \<Rightarrow> Undefined
      | Some p \<Rightarrow>
          JObj (opt_str_field ''query'' (p_query p) @
                (case p_max_results p of None \<Rightarrow> [] | Some n \<Rightarrow> [(''max_results'', JNum n)]) @
                opt_str_field ''search_depth'' (p_search_depth p) @
                opt_list_field ''include_domains'' (p_include_domains p) @
                opt_list_field ''exclude_domains'' (p_exclude_domains p) @
                opt_str_field ''tokenSymbol'' (p_tokenSymbol p) @
                opt_str_field ''tokenMintAddress'' (p_tokenMintAddress p)))"

definition js_of_birdeye :: "BirdeyeData \<Rightarrow> jsval" where
  "js_of_birdeye b =
     JObj (opt_str_field ''error'' (b_error b) @
           opt_js_field ''price'' (b_price b) @ opt_js_field ''volume24h'' (b_volume24h b) @
           opt_js_field ''liquidity'' (b_liquidity b) @ opt_js_field ''mc'' (b_mc b) @
           opt_str_field ''source'' (b_source b) @ opt_str_field ''url'' (b_url b))"

definition js_of_solscan :: "SolscanData \<Rightarrow> jsval" where
  "js_of_solscan s =
     JObj (opt_str_field ''error'' (s_error s) @
           opt_js_field ''price'' (s_price s) @ opt_js_field ''marketCap'' (s_marketCap s) @
           opt_js_field ''circulatingSupply'' (s_circulatingSupply s) @
           opt_js_field ''totalSupply'' (s_totalSupply s) @
           opt_js_field ''holders'' (s_holders s) @
           opt_str_field ''source'' (s_source s) @ opt_str_field ''url'' (s_url s))"

definition error_object :: "string \<Rightarrow> jsval" where
  "error_object msg = JObj [(''error'', JStr msg)]"

definition js_of_market_result :: "market_result \<Rightarrow> jsval" where
  "js_of_market_result r =
     (case r of
        ErrorObject msg \<Rightarrow> error_object msg
      | Aggregate c \<Rightarrow>
          JObj (opt_str_field ''tokenSymbol'' (c_tokenSymbol c) @
                opt_str_field ''tokenMintAddress'' (c_tokenMintAddress c) @
                opt_list_field ''errors'' (errors c) @
                (case birdeye c of None \<Rightarrow> [] | Some b \<Rightarrow> [(''birdeye'', js_of_birdeye b)]) @
                (case solscan c of None \<Rightarrow> [] | Some s \<Rightarrow> [(''solscan'', js_of_solscan s)]) @
                opt_str_field ''lastUpdated'' (lastUpdated c)))"

text \<open>\<open>const defaultMaxResultsSearch = model?.includes('ollama') ? 5 : 7\<close>\<close>

definition defaultMaxResultsSearch :: "string \<Rightarrow> rat" where
  "defaultMaxResultsSearch model = (if str_includes model ''ollama'' then 5 else 7)"

text \<open>
  The tool name is parsed first, without a schema; a known name has the completion
  parsed again with its schema, any other non-empty name keeps the first parse, and an
  empty name leaves \<open>toolCall\<close> undefined.
\<close>

definition select_tool_call :: "collaborators \<Rightarrow> string \<Rightarrow> exn + ToolCall option" where
  "select_tool_call c completion =
     and_then (parseToolCallXml c completion None) (\<lambda>parsedXmlForToolName.
       let chosenToolName = tool parsedXmlForToolName in
       if chosenToolName = ''search''
       then and_then (parseToolCallXml c completion (Some searchSchema)) (\<lambda>tc. Inr (Some tc))
       else if chosenToolName = ''getSolanaTokenMarketDataTool''
       then and_then (parseToolCallXml c completion (Some solanaTokenMarketDataSchema))
              (\<lambda>tc. Inr (Some tc))
       else if chosenToolName \<noteq> []
       then Inr (Some parsedXmlForToolName)
       else Inr None)"

text \<open>\<open>toolCall.parameters?.field\<close>\<close>

definition opt_param :: "ToolCall \<Rightarrow> (tool_parameters \<Rightarrow> 'a option) \<Rightarrow> 'a option" where
  "opt_param toolCall field = (case parameters toolCall of None \<Rightarrow> None | Some p \<Rightarrow> field p)"

text \<open>
  The arguments \<open>executeSearchViaApi\<close> gets, built once the query is known to be
  truthy: \<open>||\<close> replaces a falsy parameter.
\<close>

definition search_args_of :: "string \<Rightarrow> ToolCall \<Rightarrow> search_args" where
  "search_args_of model toolCall =
     \<lparr>a_query = the (opt_param toolCall p_query),
      a_maxResults = (case opt_param toolCall p_max_results of
                        None \<Rightarrow> defaultMaxResultsSearch model
                      | Some n \<Rightarrow> if n = 0 then defaultMaxResultsSearch model else n),
      a_searchDepth = (if truthy_str (opt_param toolCall p_search_depth)
                       then the (opt_param toolCall p_search_depth) else ''basic''),
      a_includeDomains = (case opt_param toolCall p_include_domains of None \<Rightarrow> [] | Some ds \<Rightarrow> ds),
      a_excludeDomains = (case opt_param toolCall p_exclude_domains of None \<Rightarrow> [] | Some ds \<Rightarrow> ds)\<rparr>"

text \<open>The object \<open>execute\<close> receives, by the two fields it reads.\<close>

definition market_params_of :: "ToolCall \<Rightarrow> SolanaTokenMarketDataParams" where
  "market_params_of toolCall =
     \<lparr>tokenSymbol = opt_param toolCall p_tokenSymbol,
      tokenMintAddress = opt_param toolCall p_tokenMintAddress\<rparr>"

text \<open>
  The branches between the two stream writes of the \<open>try\<close> block: the value assigned to
  \<open>toolResultJson\<close>, or the exception thrown, and the adapter calls made. The options
  object built for \<open>execute\<close> (the call identifier and a reference to the conversation)
  is handed over and never read: \<open>execute\<close> takes one argument.
\<close>

definition dispatch ::
  "collaborators \<Rightarrow> world \<Rightarrow> string \<Rightarrow> ToolCall \<Rightarrow> (exn + string option) \<times> effect list" where
  "dispatch c w model toolCall =
     (if tool toolCall = ''search'' then
        (if \<not> truthy_str (opt_param toolCall p_query)
         then (Inr (JSON_stringify c (error_object ''Search query missing.'')), [])
         else (case executeSearchViaApi c (search_args_of model toolCall) of
                 Inl e \<Rightarrow> (Inl e, [SearchCalled (search_args_of model toolCall)])
               | Inr searchResults \<Rightarrow>
                   (Inr (JSON_stringify c searchResults),
                    [SearchCalled (search_args_of model toolCall)])))
      else if tool toolCall = ''getSolanaTokenMarketDataTool'' then
        (if \<not> truthy_str (opt_param toolCall p_tokenSymbol)
            \<and> \<not> truthy_str (opt_param toolCall p_tokenMintAddress)
         then (Inr (JSON_stringify c
                 (error_object ''Token symbol or mint address missing for market data.'')), [])
         else (Inr (JSON_stringify c
                 (js_of_market_result
                    (getSolanaTokenMarketDataTool_execute w (market_params_of toolCall)))),
               [MarketDataCalled (market_params_of toolCall)]))
      else
        (Inr (JSON_stringify c
           (error_object (''Tool '' @ [CHR 0x27] @ tool toolCall @ [CHR 0x27] @
                          '' is not implemented or recognized.''))), []))"

text \<open>The content of the second synthesized turn.\<close>

definition synthesis_instruction :: "string \<Rightarrow> string" where
  "synthesis_instruction finalToolName =
     ''The user's original query led to the use of the '' @ [CHR 0x27] @ finalToolName @ [CHR 0x27] @
     '' tool, and the output is provided above.'' @ [CHR 0x0A] @
     ''Please analyze this output in the context of our conversation.'' @ [CHR 0x0A] @
     ''- If the tool was 'search', synthesize the search results to answer the user's question about the Solana ecosystem. Cite sources using [number](url) format.'' @ [CHR 0x0A] @
     ''- If the tool was 'getSolanaTokenMarketDataTool', present the key market data (price, volume, market cap, supply, holders) clearly. Mention the sources (Birdeye, Solscan) and the 'lastUpdated' time from the tool's output.'' @ [CHR 0x0A] @
     ''- If there were errors from the tool, acknowledge them.'' @ [CHR 0x0A] @
     ''Now, provide a comprehensive response to the user based on this information.''"

text \<open>
  From the call identifier to the \<open>return\<close>: the \<open>call\<close> event, the dispatch, the
  \<open>result\<close> event at the end of the \<open>try\<close> block or the \<open>error\<close> event of the
  \<open>catch\<close> block, then the annotation and the two turns.
\<close>

definition run_tool_call ::
  "collaborators \<Rightarrow> world \<Rightarrow> pass_state \<Rightarrow> string \<Rightarrow> ToolCall \<Rightarrow> ToolExecutionResult \<times> pass_state" where
  "run_tool_call c w st model toolCall =
     (let callId = ''call_'' @ generateId c;
          finalToolName = tool toolCall;
          argsJson = JSON_stringify c (js_of_parameters (parameters toolCall));
          outcome = fst (dispatch c w model toolCall);
          calls = snd (dispatch c w model toolCall);
          toolResultJson =
            (case outcome of
               Inr r \<Rightarrow> r
             | Inl toolError \<Rightarrow>
                 JSON_stringify c
                   (error_object (''Failed to execute tool '' @ finalToolName @ '': '' @
                                  message toolError)));
          callEvent = \<lparr>state = StateCall, toolCallId = callId, toolName = finalToolName,
                       args = argsJson, result = None\<rparr>;
          finalEvent = \<lparr>state = (case outcome of Inr _ \<Rightarrow> StateResult | Inl _ \<Rightarrow> StateError),
                        toolCallId = callId, toolName = finalToolName,
                        args = argsJson, result = toolResultJson\<rparr>
      in (\<lparr>toolCallDataAnnotation =
             Some \<lparr>ann_toolCallId = callId, ann_toolName = finalToolName,
                   ann_args = argsJson, ann_result = toolResultJson\<rparr>,
           toolCallMessages =
             [\<lparr>role = Assistant,
               content = ''[Tool Used: '' @ finalToolName @ '']'' @ [CHR 0x0A] @ ''Output:'' @
                         [CHR 0x0A] @ template_str toolResultJson\<rparr>,
              \<lparr>role = User, content = synthesis_instruction finalToolName\<rparr>]\<rparr>,
          st\<lparr>trace := trace st @ [WriteData callEvent] @ calls @
                         [WriteMessageAnnotation finalEvent]\<rparr>))"

text \<open>\<open>return { toolCallDataAnnotation: null, toolCallMessages: [] }\<close>\<close>

definition no_tool_result :: ToolExecutionResult where
  "no_tool_result = \<lparr>toolCallDataAnnotation = None, toolCallMessages = []\<rparr>"

text \<open>
  \<open>executeToolCall(coreMessages, dataStream, model, searchMode)\<close>: the value the promise
  resolves to, or the exception it rejects with, and the state of the two objects after.
\<close>

definition executeToolCall ::
  "collaborators \<Rightarrow> world \<Rightarrow> pass_state \<Rightarrow> string \<Rightarrow> bool \<Rightarrow> (exn + ToolExecutionResult) \<times> pass_state" where
  "executeToolCall c w st model searchMode =
     (if \<not> searchMode then (Inr no_tool_result, st)
      else
        (case generateText c model (last_five (coreMessages st)) of
           Inl e \<Rightarrow> (Inl e, st)
         | Inr completion \<Rightarrow>
             (case select_tool_call c completion of
                Inl e \<Rightarrow> (Inl e, st)
              | Inr None \<Rightarrow> (Inr no_tool_result, st)
              | Inr (Some toolCall) \<Rightarrow>
                  if tool toolCall = [] then (Inr no_tool_result, st)
                  else (Inr (fst (run_tool_call c w st model toolCall)),
                        snd (run_tool_call c w st model toolCall)))))"

text \<open>Whether an effect is a write to the data stream, as opposed to an adapter call.\<close>

fun is_write :: "effect \<Rightarrow> bool" where
  "is_write (WriteData _) = True"
| "is_write (WriteMessageAnnotation _) = True"
| "is_write (SearchCalled _) = False"
| "is_write (MarketDataCalled _) = False"

section \<open>The retrieval tool (lib/tools/retrieve.ts)\<close>

record SearchResultItem =
  item_title :: jsval
  item_content :: jsval
  item_url :: jsval

record SearchResultsType =
  results :: "SearchResultItem list"
  query :: string
  images :: "jsval list"

definition CONTENT_CHARACTER_LIMIT :: nat where
  "CONTENT_CHARACTER_LIMIT = 10000"

text \<open>The \<open>try\<close> block of \<open>fetchJinaReaderData\<close>; \<open>None\<close> is \<open>null\<close>.\<close>

definition jina_try :: "world \<Rightarrow> string \<Rightarrow> exn + SearchResultsType option" where
  "jina_try w target =
     and_then (fetch w \<lparr>req_url = ''https://r.jina.ai/'' @ target, req_method = ''GET'',
                        req_headers = [(''Accept'', ''application/json''),
                                       (''X-With-Generated-Alt'', ''true'')],
                        req_body = None\<rparr>) (\<lambda>response.
     and_then (json response) (\<lambda>j.
     and_then (get_prop j ''data'') (\<lambda>d.
       if \<not> truthy d then Inr None
       else
     and_then (get_length d) (\<lambda>len.
       if len = JNum 0 then Inr None
       else
     and_then (get_prop d ''content'') (\<lambda>raw.
     and_then (slice0 raw CONTENT_CHARACTER_LIMIT) (\<lambda>content.
     and_then (get_prop d ''title'') (\<lambda>title.
     and_then (get_prop d ''url'') (\<lambda>u.
       Inr (Some \<lparr>results = [\<lparr>item_title = title, item_content = content, item_url = u\<rparr>],
                  query = [], images = []\<rparr>)))))))))"

definition fetchJinaReaderData :: "world \<Rightarrow> string \<Rightarrow> SearchResultsType option" where
  "fetchJinaReaderData w target = (case jina_try w target of Inl e \<Rightarrow> None | Inr r \<Rightarrow> r)"

text \<open>The \<open>try\<close> block of \<open>fetchTavilyExtractData\<close>.\<close>

definition tavily_extract_try :: "world \<Rightarrow> string \<Rightarrow> exn + SearchResultsType option" where
  "tavily_extract_try w target =
     and_then (fetch w \<lparr>req_url = ''https://api.tavily.com/extract'', req_method = ''POST'',
                        req_headers = [(''Content-Type'', ''application/json'')],
                        req_body = Some (JObj (opt_str_field ''api_key'' (TAVILY_API_KEY w) @
                                               [(''urls'', JArr [JStr target])]))\<rparr>) (\<lambda>response.
     and_then (json response) (\<lambda>j.
     and_then (get_prop j ''results'') (\<lambda>rs.
       if \<not> truthy rs then Inr None
       else
     and_then (get_length rs) (\<lambda>len.
       if len = JNum 0 then Inr None
       else
     and_then (get_index0 rs) (\<lambda>r.
     and_then (get_prop r ''raw_content'') (\<lambda>raw.
     and_then (slice0 raw CONTENT_CHARACTER_LIMIT) (\<lambda>content.
     and_then (slice0 content 100) (\<lambda>title.
     and_then (get_prop r ''url'') (\<lambda>u.
       Inr (Some \<lparr>results = [\<lparr>item_title = title, item_content = content, item_url = u\<rparr>],
                  query = [], images = []\<rparr>))))))))))"

definition fetchTavilyExtractData :: "world \<Rightarrow> string \<Rightarrow> SearchResultsType option" where
  "fetchTavilyExtractData w target =
     (case tavily_extract_try w target of Inl e \<Rightarrow> None | Inr r \<Rightarrow> r)"

text \<open>
  What the provider sent as content, read off the same response: \<open>json.data.content\<close>
  for Jina, \<open>json.results[0].raw_content\<close> for Tavily Extract.
\<close>

definition jina_provider_content :: "world \<Rightarrow> string \<Rightarrow> exn + jsval" where
  "jina_provider_content w target =
     and_then (fetch w \<lparr>req_url = ''https://r.jina.ai/'' @ target, req_method = ''GET'',
                        req_headers = [(''Accept'', ''application/json''),
                                       (''X-With-Generated-Alt'', ''true'')],
                        req_body = None\<rparr>) (\<lambda>response.
     and_then (json response) (\<lambda>j.
     and_then (get_prop j ''data'') (\<lambda>d. get_prop d ''content'')))"

definition tavily_provider_content :: "world \<Rightarrow> string \<Rightarrow> exn + jsval" where
  "tavily_provider_content w target =
     and_then (fetch w \<lparr>req_url = ''https://api.tavily.com/extract'', req_method = ''POST'',
                        req_headers = [(''Content-Type'', ''application/json'')],
                        req_body = Some (JObj (opt_str_field ''api_key'' (TAVILY_API_KEY w) @
                                               [(''urls'', JArr [JStr target])]))\<rparr>) (\<lambda>response.
     and_then (json response) (\<lambda>j.
     and_then (get_prop j ''results'') (\<lambda>rs.
     and_then (get_index0 rs) (\<lambda>r. get_prop r ''raw_content''))))"

text \<open>The \<open>length\<close> of a string or an array.\<close>

definition js_length :: "jsval \<Rightarrow> nat" where
  "js_length v = (case v of JStr s \<Rightarrow> length s | JArr xs \<Rightarrow> length xs | _ \<Rightarrow> 0)"

datatype retrieve_result =
    RetrieveError string
  | Retrieved SearchResultsType

definition retrieveTool_execute :: "world \<Rightarrow> string \<Rightarrow> retrieve_result" where
  "retrieveTool_execute w target =
     (case (if truthy_str (JINA_API_KEY w) then fetchJinaReaderData w target
            else fetchTavilyExtractData w target) of
        None \<Rightarrow> RetrieveError ''Failed to retrieve content from the URL or no content found.''
      | Some r \<Rightarrow> Retrieved r)"

section \<open>The Tavily search provider (lib/tools/search/providers/tavily.ts)\<close>

text \<open>The default of the parameter \<open>includeDomains\<close>.\<close>

definition default_includeDomains :: "string list" where
  "default_includeDomains =
     [''solana.com'', ''solscan.io'', ''solana.fm'', ''explorer.solana.com'', ''defillama.com'',
      ''coingecko.com'', ''coinmarketcap.com'', ''solanafloor.com'', ''decrypt.co'',
      ''theblockcrypto.com'', ''nosana.io'', ''jup.ag'', ''tensor.trade'', ''drift.trade'',
      ''pyth.network'', ''magiceden.io'', ''metaplex.com'', ''docs.solana.com'',
      ''github.com/solana-labs'', ''medium.com'', ''substack.com'']"

text \<open>
  \<open>query.length < 5 ? query + ' '.repeat(5 - query.length) : query\<close>
\<close>

definition filledQuery :: "string \<Rightarrow> string" where
  "filledQuery q = (if length q < 5 then q @ replicate (5 - length q) CHR '' '' else q)"

text \<open>
  \<open>TavilySearchProvider.search\<close> up to its \<open>fetch\<close> call: the request it sends, or
  the exception thrown before. An argument left out (\<open>None\<close>) takes the parameter's
  default. \<open>validateApiKey\<close> is inherited from the base provider, which is not among the
  sources, and is taken as given. The handling of the response is not part of this
  definition.
\<close>

definition tavily_search_request ::
  "(string option \<Rightarrow> string \<Rightarrow> exn + unit) \<Rightarrow> world \<Rightarrow> string \<Rightarrow> rat option \<Rightarrow> string option \<Rightarrow>
   string list option \<Rightarrow> string list option \<Rightarrow> exn + http_request" where
  "tavily_search_request validateApiKey w q maxResults searchDepth includeDomains excludeDomains =
     and_then (validateApiKey (TAVILY_API_KEY w) ''TAVILY'') (\<lambda>_.
       Inr \<lparr>req_url = ''https://api.tavily.com/search'', req_method = ''POST'',
            req_headers = [(''Content-Type'', ''application/json'')],
            req_body = Some (JObj (opt_str_field ''api_key'' (TAVILY_API_KEY w) @
              [(''query'', JStr (filledQuery q)),
               (''max_results'', JNum (max (case maxResults of None \<Rightarrow> 10 | Some n \<Rightarrow> n) 5)),
               (''search_depth'', JStr (case searchDepth of None \<Rightarrow> ''basic'' | Some d \<Rightarrow> d)),
               (''include_images'', JBool True),
               (''include_image_descriptions'', JBool True),
               (''include_answers'', JBool True),
               (''include_domains'',
                  JArr (map JStr (case includeDomains of None \<Rightarrow> default_includeDomains
                                                        | Some ds \<Rightarrow> ds))),
               (''exclude_domains'',
                  JArr (map JStr (case excludeDomains of None \<Rightarrow> [] | Some ds \<Rightarrow> ds)))]))\<rparr>)"

section \<open>The call parser, from its specification\<close>

text \<open>
  The call parser \<open>parseToolCallXml\<close> is imported from \<open>./parse-tool-call\<close>, which is
  not among the sources. This section models it from its specification, which gives it as
  \<open>parse(rawText, expectedSchema?) -> ToolInvocation\<close> over one markup block with a tool
  name and nested parameter fields. The markup is the one the selection prompt asks for:
  \<open><tool_call><tool>name</tool><parameters><field>text</field>...</parameters></tool_call>\<close>.
\<close>

text \<open>
  Modelled from the spec: the search for a tag of the markup block, absent from the
  sources with the parser. The rest of a text after the first occurrence of a pattern.
\<close>

fun after_first :: "string \<Rightarrow> string \<Rightarrow> string option" where
  "after_first pat [] = (if pat = [] then Some [] else None)"
| "after_first pat (c # cs) =
     (if starts_with (c # cs) pat then Some (drop (length pat) (c # cs))
      else after_first pat cs)"

text \<open>
  Modelled from the spec: the search for a closing tag, absent from the sources with the
  parser. The part of a text before the first occurrence of a pattern.
\<close>

fun before_first :: "string \<Rightarrow> string \<Rightarrow> string option" where
  "before_first pat [] = (if pat = [] then Some [] else None)"
| "before_first pat (c # cs) =
     (if starts_with (c # cs) pat then Some []
      else map_option ((#) c) (before_first pat cs))"

text \<open>
  Modelled from the spec: a field of the markup block, as the absent parser matches it.
  The content of the first element \<open><name>...</name>\<close> of a text.
\<close>

definition element :: "string \<Rightarrow> string \<Rightarrow> string option" where
  "element name s =
     (case after_first (''<'' @ name @ ''>'') s of
        None \<Rightarrow> None
      | Some rest \<Rightarrow> before_first (''</'' @ name @ ''>'') rest)"

text \<open>
  Modelled from the spec: white space around a name or a list entry, which the absent
  parser is taken to drop.
\<close>

definition is_space :: "char \<Rightarrow> bool" where
  "is_space c = (c = CHR '' '' \<or> c = CHR 0x0A \<or> c = CHR 0x0D \<or> c = CHR 0x09)"

text \<open>Modelled from the spec: the same, for a whole text, at both ends.\<close>

definition trim :: "string \<Rightarrow> string" where
  "trim s = rev (dropWhile is_space (rev (dropWhile is_space s)))"

text \<open>
  Modelled from the spec: the numeric parse of the absent parser. A decimal numeral, or
  nothing on a parse failure.
\<close>

definition digit_of :: "char \<Rightarrow> nat option" where
  "digit_of c = map_of (zip ''0123456789'' [0..<10]) c"

text \<open>Modelled from the spec: the numeric parse, digit by digit.\<close>

fun parse_digits :: "nat \<Rightarrow> string \<Rightarrow> nat option" where
  "parse_digits acc [] = Some acc"
| "parse_digits acc (c # cs) =
     (case digit_of c of None \<Rightarrow> None | Some d \<Rightarrow> parse_digits (10 * acc + d) cs)"

text \<open>Modelled from the spec: the numeric parse of a trimmed, non-empty field.\<close>

definition parse_number :: "string \<Rightarrow> rat option" where
  "parse_number s =
     (if trim s = [] then None else map_option of_nat (parse_digits 0 (trim s)))"

text \<open>
  Modelled from the spec: the list coercion of the absent parser. A comma-separated text as
  the list of its trimmed parts.
\<close>

fun split_commas :: "string \<Rightarrow> string \<Rightarrow> string list" where
  "split_commas cur [] = [trim cur]"
| "split_commas cur (c # cs) =
     (if c = CHR '','' then trim cur # split_commas [] cs else split_commas (cur @ [c]) cs)"

text \<open>
  Modelled from the spec: the parameter coercion of the absent parser. With a schema, each
  matched field is coerced by its declared type: a string is passed through, a number is
  parsed and falls back to the declared default, a comma-separated string is split into a
  list; a missing optional field takes its declared default and a missing required field
  stays absent. The search schema declares a required \<open>query\<close>, a
  number \<open>max_results\<close> with a declared default, \<open>search_depth\<close> with default \<open>basic\<close>
  and two optional lists; the market-data schema declares two optional strings.
\<close>

definition spec_parameters :: "rat \<Rightarrow> string \<Rightarrow> schema_ref option \<Rightarrow> tool_parameters" where
  "spec_parameters declared_max block schema =
     (case schema of
        None \<Rightarrow> no_parameters
      | Some searchSchema \<Rightarrow>
          no_parameters
            \<lparr>p_query := element ''query'' block,
             p_max_results :=
               (case element ''max_results'' block of
                  None \<Rightarrow> Some declared_max
                | Some t \<Rightarrow> (case parse_number t of None \<Rightarrow> Some declared_max | Some n \<Rightarrow> Some n)),
             p_search_depth :=
               (case element ''search_depth'' block of None \<Rightarrow> Some ''basic'' | Some t \<Rightarrow> Some t),
             p_include_domains := map_option (split_commas []) (element ''include_domains'' block),
             p_exclude_domains := map_option (split_commas []) (element ''exclude_domains'' block)\<rparr>
      | Some solanaTokenMarketDataSchema \<Rightarrow>
          no_parameters
            \<lparr>p_tokenSymbol := element ''tokenSymbol'' block,
             p_tokenMintAddress := element ''tokenMintAddress'' block\<rparr>)"

text \<open>
  Modelled from the spec: the one invocation the absent parser gives when no tool is
  selected, an empty tool name and no parameters.
\<close>

definition no_tool_invocation :: ToolCall where
  "no_tool_invocation = \<lparr>tool = [], parameters = Some no_parameters\<rparr>"

text \<open>
  Modelled from the spec: the absent parser \<open>parseToolCallXml\<close> itself. The tool name is
  extracted first, independent of the schema; no tool block, an empty tool name and
  unparseable markup all give the same no-tool invocation; the parser never throws, so it
  is a total function with no exception in its result. The first argument is the declared
  default of \<open>max_results\<close>, which the specification leaves open.
\<close>

definition parseToolCallXml_spec :: "rat \<Rightarrow> string \<Rightarrow> schema_ref option \<Rightarrow> ToolCall" where
  "parseToolCallXml_spec declared_max rawText schema =
     (case element ''tool_call'' rawText of
        None \<Rightarrow> no_tool_invocation
      | Some block \<Rightarrow>
          (case element ''tool'' block of
             None \<Rightarrow> no_tool_invocation
           | Some name \<Rightarrow>
               if trim name = [] then no_tool_invocation
               else \<lparr>tool = trim name,
                     parameters = Some (spec_parameters declared_max block schema)\<rparr>))"

section \<open>Concrete worlds and collaborators\<close>

text \<open>A network that is down, with the Birdeye key configured.\<close>

definition w_offline :: world where
  "w_offline =
     \<lparr>BIRDEYE_API_KEY = Some ''key'', TAVILY_API_KEY = Some ''tvly'', JINA_API_KEY = None,
      fetch = (\<lambda>_. Inl (Error ''fetch failed'')),
      now_iso = ''2025-01-01T00:00:00.000Z''\<rparr>"

text \<open>The same network with no Birdeye key in the environment.\<close>

definition w_nokey :: world where
  "w_nokey = w_offline\<lparr>BIRDEYE_API_KEY := None\<rparr>"

text \<open>A network that answers every request with the same JSON document.\<close>

definition w_serving :: world where
  "w_serving =
     \<lparr>BIRDEYE_API_KEY = Some ''key'', TAVILY_API_KEY = Some ''tvly'', JINA_API_KEY = Some ''jina'',
      fetch = (\<lambda>_. Inr \<lparr>ok = True, status = 200, statusText = ''OK'',
                json = Inr (JObj [(''data'', JObj [(''value'', JNum 2),
                                                    (''content'', JStr ''page text''),
                                                    (''title'', JStr ''Page''),
                                                    (''url'', JStr ''https://a.io'')]),
                                  (''results'', JArr [JObj [(''raw_content'', JStr ''raw text''),
                                                            (''url'', JStr ''https://a.io'')]]),
                                  (''supply'', JNum 100)])\<rparr>),
      now_iso = ''2025-01-01T00:00:00.000Z''\<rparr>"

text \<open>A serialiser that keeps the message of an error object readable.\<close>

definition stub_stringify :: "jsval \<Rightarrow> string option" where
  "stub_stringify v =
     (case v of
        Undefined \<Rightarrow> None
      | JObj [(k, JStr m)] \<Rightarrow> Some (''{'' @ k @ '':'' @ m @ ''}'')
      | _ \<Rightarrow> Some ''{}'')"

text \<open>
  Collaborators whose model answers with one fixed completion and whose parser answers
  every text, under every schema, with one given invocation; the search client returns
  one fixed answer.
\<close>

definition stub_completion :: string where
  "stub_completion = ''<tool_call>...</tool_call>''"

definition stub_collaborators :: "ToolCall \<Rightarrow> collaborators" where
  "stub_collaborators toolCall =
     \<lparr>generateText = (\<lambda>_ _. Inr stub_completion),
      parseToolCallXml = (\<lambda>_ _. Inr toolCall),
      generateId = ''abc'',
      executeSearchViaApi = (\<lambda>_. Inr (JObj [(''answer'', JStr ''NOS mint found'')])),
      JSON_stringify = stub_stringify\<rparr>"

text \<open>The same collaborators with the specified parser in place of the fixed answer.\<close>

definition spec_collaborators :: "string \<Rightarrow> collaborators" where
  "spec_collaborators completion =
     \<lparr>generateText = (\<lambda>_ _. Inr completion),
      parseToolCallXml = (\<lambda>t s. Inr (parseToolCallXml_spec 7 t s)),
      generateId = ''abc'',
      executeSearchViaApi = (\<lambda>_. Inr (JObj [(''answer'', JStr ''NOS mint found'')])),
      JSON_stringify = stub_stringify\<rparr>"

definition st0 :: pass_state where
  "st0 = \<lparr>coreMessages = [\<lparr>role = User, content = ''What is the price of $NOS?''\<rparr>], trace = []\<rparr>"

definition completion_no_tool :: string where
  "completion_no_tool = ''<tool_call><tool></tool></tool_call>''"

definition completion_plain :: string where
  "completion_plain = ''No tool is needed for this question.''"

definition params_symbol_only :: SolanaTokenMarketDataParams where
  "params_symbol_only = \<lparr>tokenSymbol = Some ''$NOS'', tokenMintAddress = None\<rparr>"

definition params_mint_only :: SolanaTokenMarketDataParams where
  "params_mint_only = \<lparr>tokenSymbol = None, tokenMintAddress = Some ''M1nt''\<rparr>"

definition tc_search_no_query :: ToolCall where
  "tc_search_no_query = \<lparr>tool = ''search'', parameters = Some no_parameters\<rparr>"

definition tc_search :: ToolCall where
  "tc_search =
     \<lparr>tool = ''search'', parameters = Some (no_parameters\<lparr>p_query := Some ''NOS mint''\<rparr>)\<rparr>"

definition tc_market_symbol :: ToolCall where
  "tc_market_symbol =
     \<lparr>tool = ''getSolanaTokenMarketDataTool'',
      parameters = Some (no_parameters\<lparr>p_tokenSymbol := Some ''$NOS''\<rparr>)\<rparr>"

definition tc_unknown :: ToolCall where
  "tc_unknown = \<lparr>tool = ''retrieve'', parameters = Some no_parameters\<rparr>"

text \<open>A key check that accepts any non-empty key.\<close>

definition stub_validateApiKey :: "string option \<Rightarrow> string \<Rightarrow> exn + unit" where
  "stub_validateApiKey k n = (if truthy_str k then Inr () else Inl (Error (n @ '' key missing'')))"

definition retrieved_page :: SearchResultsType where
  "retrieved_page =
     \<lparr>results = [\<lparr>item_title = JStr ''Page'', item_content = JStr ''page text'',
                   item_url = JStr ''https://a.io''\<rparr>],
      query = [], images = []\<rparr>"

section \<open>Properties of the market-data tool\<close>

lemma and_then_Inr_iff:
  "and_then m f = Inr y \<longleftrightarrow> (\<exists>x. m = Inr x \<and> f x = Inr y)"
  by (cases m) (simp_all add: and_then_def)

text \<open>A source that succeeds reports no error; a source that fails has no payload field.\<close>

lemma birdeye_try_no_error: "birdeye_try w k m = Inr r \<Longrightarrow> b_error r = None"
  by (auto simp: birdeye_try_def and_then_Inr_iff no_birdeye_def)

lemma solscan_try_no_error: "solscan_try w m = Inr r \<Longrightarrow> s_error r = None"
  by (auto simp: solscan_try_def and_then_Inr_iff no_solscan_def)

lemma birdeye_error_no_price:
  "truthy_str (b_error (fetchBirdeyeData w p)) \<Longrightarrow> b_price (fetchBirdeyeData w p) = Undefined"
  by (auto simp: fetchBirdeyeData_def no_birdeye_def truthy_str_def
      dest: birdeye_try_no_error split: sum.splits if_splits)

lemma solscan_error_no_supply:
  "truthy_str (s_error (fetchSolscanData w p)) \<Longrightarrow>
   s_circulatingSupply (fetchSolscanData w p) = Undefined"
  by (auto simp: fetchSolscanData_def no_solscan_def truthy_str_def
      dest: solscan_try_no_error split: sum.splits if_splits)

text \<open>The two outcomes of \<open>execute\<close> once an identifier is set.\<close>

lemma execute_cases:
  assumes "truthy_str (tokenSymbol p) \<or> truthy_str (tokenMintAddress p)"
  shows "getSolanaTokenMarketDataTool_execute w p =
     (if truthy_str (b_error (fetchBirdeyeData w p)) \<and> truthy_str (s_error (fetchSolscanData w p))
         \<and> \<not> truthy (b_price (fetchBirdeyeData w p))
         \<and> \<not> truthy (s_circulatingSupply (fetchSolscanData w p))
      then ErrorObject (''Failed to fetch significant market data. Errors: '' @
             the (b_error (fetchBirdeyeData w p)) @ ''; '' @ the (s_error (fetchSolscanData w p)))
      else Aggregate \<lparr>c_tokenSymbol = tokenSymbol p, c_tokenMintAddress = tokenMintAddress p,
             birdeye = Some (fetchBirdeyeData w p), solscan = Some (fetchSolscanData w p),
             lastUpdated = Some (now_iso w),
             errors = Some ((if truthy_str (b_error (fetchBirdeyeData w p))
                             then [the (b_error (fetchBirdeyeData w p))] else []) @
                            (if truthy_str (s_error (fetchSolscanData w p))
                             then [the (s_error (fetchSolscanData w p))] else []))\<rparr>)"
  using assms
  by (auto simp: getSolanaTokenMarketDataTool_execute_def Let_def push_error_def errors_length_def
      errors_joined_def)

text \<open>
  Claim C1. With a token symbol or a mint address set, \<open>execute\<close> returns the wholesale
  error object exactly when both the Birdeye result and the Solscan result carry an error
  and neither primary field is usable (no truthy Birdeye price, no truthy Solscan
  circulating supply). The error message lists the two source errors. In every other case
  it returns the aggregate: the identifiers, both per-source payloads, the source errors
  collected in order, and the timestamp. A source result that carries an error carries no
  primary field, so the two sources failing is already the whole condition.
\<close>

theorem aggregate_failure_iff:
  assumes "truthy_str (tokenSymbol p) \<or> truthy_str (tokenMintAddress p)"
  shows "((\<exists>msg. getSolanaTokenMarketDataTool_execute w p = ErrorObject msg) \<longleftrightarrow>
           truthy_str (b_error (fetchBirdeyeData w p)) \<and> truthy_str (s_error (fetchSolscanData w p))
           \<and> \<not> truthy (b_price (fetchBirdeyeData w p))
           \<and> \<not> truthy (s_circulatingSupply (fetchSolscanData w p)))
       \<and> getSolanaTokenMarketDataTool_execute w p =
     (if truthy_str (b_error (fetchBirdeyeData w p)) \<and> truthy_str (s_error (fetchSolscanData w p))
         \<and> \<not> truthy (b_price (fetchBirdeyeData w p))
         \<and> \<not> truthy (s_circulatingSupply (fetchSolscanData w p))
      then ErrorObject (''Failed to fetch significant market data. Errors: '' @
             the (b_error (fetchBirdeyeData w p)) @ ''; '' @ the (s_error (fetchSolscanData w p)))
      else Aggregate \<lparr>c_tokenSymbol = tokenSymbol p, c_tokenMintAddress = tokenMintAddress p,
             birdeye = Some (fetchBirdeyeData w p), solscan = Some (fetchSolscanData w p),
             lastUpdated = Some (now_iso w),
             errors = Some ((if truthy_str (b_error (fetchBirdeyeData w p))
                             then [the (b_error (fetchBirdeyeData w p))] else []) @
                            (if truthy_str (s_error (fetchSolscanData w p))
                             then [the (s_error (fetchSolscanData w p))] else []))\<rparr>)
       \<and> (truthy_str (b_error (fetchBirdeyeData w p)) \<longrightarrow>
            b_price (fetchBirdeyeData w p) = Undefined)
       \<and> (truthy_str (s_error (fetchSolscanData w p)) \<longrightarrow>
            s_circulatingSupply (fetchSolscanData w p) = Undefined)"
proof -
  note eq = execute_cases [OF assms, of w]
  have iff: "(\<exists>msg. getSolanaTokenMarketDataTool_execute w p = ErrorObject msg) \<longleftrightarrow>
           truthy_str (b_error (fetchBirdeyeData w p)) \<and> truthy_str (s_error (fetchSolscanData w p))
           \<and> \<not> truthy (b_price (fetchBirdeyeData w p))
           \<and> \<not> truthy (s_circulatingSupply (fetchSolscanData w p))"
    by (subst eq) (simp split: if_splits)
  from iff eq birdeye_error_no_price [of w p] solscan_error_no_supply [of w p]
  show ?thesis by blast
qed

text \<open>
  The theorem at two inputs: a mint address on a network that answers (the aggregate, with
  no error collected), and a symbol alone on a network that is down (the wholesale error).
\<close>

theorem aggregate_failure_iff_witness:
  "(truthy_str (tokenSymbol params_mint_only) \<or> truthy_str (tokenMintAddress params_mint_only))
   \<and> getSolanaTokenMarketDataTool_execute w_serving params_mint_only =
       Aggregate
         \<lparr>c_tokenSymbol = None, c_tokenMintAddress = Some ''M1nt'',
          birdeye = Some \<lparr>b_price = JNum 2, b_volume24h = Undefined, b_liquidity = Undefined,
                          b_mc = Undefined, b_source = Some ''Birdeye API'',
                          b_url = Some ''https://birdeye.so/token/M1nt?chain=solana'',
                          b_error = None\<rparr>,
          solscan = Some \<lparr>s_price = Undefined, s_marketCap = Undefined,
                          s_circulatingSupply = JNum 100, s_totalSupply = JNum 100,
                          s_holders = Undefined, s_source = Some ''Solscan API'',
                          s_url = Some ''https://solscan.io/token/M1nt'', s_error = None\<rparr>,
          lastUpdated = Some ''2025-01-01T00:00:00.000Z'', errors = Some []\<rparr>
   \<and> (truthy_str (tokenSymbol params_symbol_only) \<or> truthy_str (tokenMintAddress params_symbol_only))
   \<and> (\<exists>msg. getSolanaTokenMarketDataTool_execute w_offline params_symbol_only = ErrorObject msg)"
proof -
  have h1: "truthy_str (tokenSymbol params_mint_only) \<or> truthy_str (tokenMintAddress params_mint_only)"
    by code_simp
  have h2: "truthy_str (tokenSymbol params_symbol_only) \<or> truthy_str (tokenMintAddress params_symbol_only)"
    by code_simp
  have b1: "fetchBirdeyeData w_serving params_mint_only =
      \<lparr>b_price = JNum 2, b_volume24h = Undefined, b_liquidity = Undefined,
       b_mc = Undefined, b_source = Some ''Birdeye API'',
       b_url = Some ''https://birdeye.so/token/M1nt?chain=solana'', b_error = None\<rparr>"
    by code_simp
  have s1: "fetchSolscanData w_serving params_mint_only =
      \<lparr>s_price = Undefined, s_marketCap = Undefined,
       s_circulatingSupply = JNum 100, s_totalSupply = JNum 100,
       s_holders = Undefined, s_source = Some ''Solscan API'',
       s_url = Some ''https://solscan.io/token/M1nt'', s_error = None\<rparr>"
    by code_simp
  have n1: "now_iso w_serving = ''2025-01-01T00:00:00.000Z''"
    and p1: "tokenSymbol params_mint_only = None" "tokenMintAddress params_mint_only = Some ''M1nt''"
    by (simp_all add: w_serving_def params_mint_only_def)
  have c2: "truthy_str (b_error (fetchBirdeyeData w_offline params_symbol_only))
          \<and> truthy_str (s_error (fetchSolscanData w_offline params_symbol_only))
          \<and> \<not> truthy (b_price (fetchBirdeyeData w_offline params_symbol_only))
          \<and> \<not> truthy (s_circulatingSupply (fetchSolscanData w_offline params_symbol_only))"
    by code_simp
  from aggregate_failure_iff [OF h1, of w_serving]
  have a1: "getSolanaTokenMarketDataTool_execute w_serving params_mint_only =
       Aggregate
         \<lparr>c_tokenSymbol = None, c_tokenMintAddress = Some ''M1nt'',
          birdeye = Some \<lparr>b_price = JNum 2, b_volume24h = Undefined, b_liquidity = Undefined,
                          b_mc = Undefined, b_source = Some ''Birdeye API'',
                          b_url = Some ''https://birdeye.so/token/M1nt?chain=solana'',
                          b_error = None\<rparr>,
          solscan = Some \<lparr>s_price = Undefined, s_marketCap = Undefined,
                          s_circulatingSupply = JNum 100, s_totalSupply = JNum 100,
                          s_holders = Undefined, s_source = Some ''Solscan API'',
                          s_url = Some ''https://solscan.io/token/M1nt'', s_error = None\<rparr>,
          lastUpdated = Some ''2025-01-01T00:00:00.000Z'', errors = Some []\<rparr>"
    by (simp add: b1 s1 n1 p1 truthy_str_def)
  from aggregate_failure_iff [OF h2, of w_offline] c2
  have a2: "\<exists>msg. getSolanaTokenMarketDataTool_execute w_offline params_symbol_only = ErrorObject msg"
    by blast
  from h1 h2 a1 a2 show ?thesis by blast
qed

text \<open>With no mint address, neither source makes a request.\<close>

lemma fetch_symbol_only_birdeye:
  "\<not> truthy_str (tokenMintAddress p) \<Longrightarrow>
   fetchBirdeyeData w p =
     no_birdeye\<lparr>b_error := Some (if truthy_str (BIRDEYE_API_KEY w)
                                  then ''Birdeye: Mint address preferred for precise data.''
                                  else ''Birdeye API key not configured.''),
                b_source := Some ''Birdeye''\<rparr>"
  by (simp add: fetchBirdeyeData_def)

lemma fetch_symbol_only_solscan:
  "\<not> truthy_str (tokenMintAddress p) \<Longrightarrow>
   fetchSolscanData w p =
     no_solscan\<lparr>s_error := Some ''Solscan: Mint address required for precise data.'',
                s_source := Some ''Solscan''\<rparr>"
  by (simp add: fetchSolscanData_def)

text \<open>
  Claim C4, as amended. With a token symbol set and no mint address, the Solscan fetcher
  returns the error requiring a mint address; the Birdeye fetcher returns an error too,
  the one preferring a mint address when the Birdeye API key is configured and
  \<open>Birdeye API key not configured.\<close> when it is not; neither primary field is present;
  and \<open>execute\<close> returns the single wholesale error object whose message holds both
  source errors, Birdeye's first.
\<close>

theorem symbol_only_fails:
  assumes "truthy_str (tokenSymbol p)" and "\<not> truthy_str (tokenMintAddress p)"
  shows "s_error (fetchSolscanData w p) = Some ''Solscan: Mint address required for precise data.''
       \<and> b_error (fetchBirdeyeData w p) =
           Some (if truthy_str (BIRDEYE_API_KEY w)
                 then ''Birdeye: Mint address preferred for precise data.''
                 else ''Birdeye API key not configured.'')
       \<and> b_price (fetchBirdeyeData w p) = Undefined
       \<and> s_circulatingSupply (fetchSolscanData w p) = Undefined
       \<and> getSolanaTokenMarketDataTool_execute w p =
           ErrorObject (''Failed to fetch significant market data. Errors: '' @
             (if truthy_str (BIRDEYE_API_KEY w)
              then ''Birdeye: Mint address preferred for precise data.''
              else ''Birdeye API key not configured.'') @ ''; '' @
             ''Solscan: Mint address required for precise data.'')"
proof -
  have b: "fetchBirdeyeData w p =
     no_birdeye\<lparr>b_error := Some (if truthy_str (BIRDEYE_API_KEY w)
                                  then ''Birdeye: Mint address preferred for precise data.''
                                  else ''Birdeye API key not configured.''),
                b_source := Some ''Birdeye''\<rparr>"
    using assms(2) by (rule fetch_symbol_only_birdeye)
  have s: "fetchSolscanData w p =
     no_solscan\<lparr>s_error := Some ''Solscan: Mint address required for precise data.'',
                s_source := Some ''Solscan''\<rparr>"
    using assms(2) by (rule fetch_symbol_only_solscan)
  have e: "getSolanaTokenMarketDataTool_execute w p =
           ErrorObject (''Failed to fetch significant market data. Errors: '' @
             (if truthy_str (BIRDEYE_API_KEY w)
              then ''Birdeye: Mint address preferred for precise data.''
              else ''Birdeye API key not configured.'') @ ''; '' @
             ''Solscan: Mint address required for precise data.'')"
    using assms(1) unfolding execute_cases [of p w, OF disjI1 [OF assms(1)]] b s
    by (simp add: no_birdeye_def no_solscan_def truthy_str_def)
  show ?thesis
    unfolding e unfolding b s by (simp add: no_birdeye_def no_solscan_def)
qed

text \<open>The theorem for the symbol \<open>$NOS\<close>, with the Birdeye key configured.\<close>

theorem symbol_only_fails_witness:
  "truthy_str (tokenSymbol params_symbol_only)
   \<and> \<not> truthy_str (tokenMintAddress params_symbol_only)
   \<and> getSolanaTokenMarketDataTool_execute w_offline params_symbol_only =
       ErrorObject ''Failed to fetch significant market data. Errors: Birdeye: Mint address preferred for precise data.; Solscan: Mint address required for precise data.''"
proof -
  have h1: "truthy_str (tokenSymbol params_symbol_only)" by code_simp
  have h2: "\<not> truthy_str (tokenMintAddress params_symbol_only)" by code_simp
  have k: "truthy_str (BIRDEYE_API_KEY w_offline)" by code_simp
  from symbol_only_fails [OF h1 h2, of w_offline] k h1 h2 show ?thesis by simp
qed

text \<open>
  Claim C4 as first stated fails: with no Birdeye key in the environment, the Birdeye
  error of a symbol-only invocation is about the key and says nothing of a mint address.
\<close>

theorem symbol_only_birdeye_error_counterexample:
  "truthy_str (tokenSymbol params_symbol_only)
   \<and> \<not> truthy_str (tokenMintAddress params_symbol_only)
   \<and> b_error (fetchBirdeyeData w_nokey params_symbol_only) = Some ''Birdeye API key not configured.''
   \<and> \<not> str_includes ''Birdeye API key not configured.'' ''int address''"
  by code_simp

section \<open>Properties of the orchestrator\<close>

text \<open>What one dispatched tool call leaves behind: the trace, the conversation, the result.\<close>

lemma run_tool_call_trace:
  "trace (snd (run_tool_call c w st model tc)) =
     trace st @
     [WriteData \<lparr>state = StateCall, toolCallId = ''call_'' @ generateId c, toolName = tool tc,
                 args = JSON_stringify c (js_of_parameters (parameters tc)), result = None\<rparr>] @
     snd (dispatch c w model tc) @
     [WriteMessageAnnotation
        \<lparr>state = (case fst (dispatch c w model tc) of Inr _ \<Rightarrow> StateResult | Inl _ \<Rightarrow> StateError),
         toolCallId = ''call_'' @ generateId c, toolName = tool tc,
         args = JSON_stringify c (js_of_parameters (parameters tc)),
         result = (case fst (dispatch c w model tc) of
                     Inr r \<Rightarrow> r
                   | Inl toolError \<Rightarrow>
                       JSON_stringify c
                         (error_object (''Failed to execute tool '' @ tool tc @ '': '' @
                                        message toolError)))\<rparr>]"
  by (simp add: run_tool_call_def Let_def)

lemma run_tool_call_coreMessages:
  "coreMessages (snd (run_tool_call c w st model tc)) = coreMessages st"
  by (simp add: run_tool_call_def Let_def)

lemma run_tool_call_state:
  "snd (run_tool_call c w st model tc) =
     st\<lparr>trace := trace (snd (run_tool_call c w st model tc))\<rparr>"
  by (simp add: run_tool_call_def Let_def)

lemma run_tool_call_result:
  "fst (run_tool_call c w st model tc) =
     \<lparr>toolCallDataAnnotation =
        Some \<lparr>ann_toolCallId = ''call_'' @ generateId c, ann_toolName = tool tc,
              ann_args = JSON_stringify c (js_of_parameters (parameters tc)),
              ann_result = (case fst (dispatch c w model tc) of
                     Inr r \<Rightarrow> r
                   | Inl toolError \<Rightarrow>
                       JSON_stringify c
                         (error_object (''Failed to execute tool '' @ tool tc @ '': '' @
                                        message toolError)))\<rparr>,
      toolCallMessages =
        [\<lparr>role = Assistant,
          content = ''[Tool Used: '' @ tool tc @ '']'' @ [CHR 0x0A] @ ''Output:'' @ [CHR 0x0A] @
             template_str (case fst (dispatch c w model tc) of
                     Inr r \<Rightarrow> r
                   | Inl toolError \<Rightarrow>
                       JSON_stringify c
                         (error_object (''Failed to execute tool '' @ tool tc @ '': '' @
                                        message toolError)))\<rparr>,
         \<lparr>role = User, content = synthesis_instruction (tool tc)\<rparr>]\<rparr>"
  by (simp add: run_tool_call_def Let_def)

lemma executeToolCall_selected:
  assumes "generateText c model (last_five (coreMessages st)) = Inr completion"
      and "select_tool_call c completion = Inr (Some tc)"
      and "tool tc \<noteq> []"
  shows "executeToolCall c w st model True =
           (Inr (fst (run_tool_call c w st model tc)), snd (run_tool_call c w st model tc))"
  using assms by (simp add: executeToolCall_def)

lemma executeToolCall_coreMessages:
  "coreMessages (snd (executeToolCall c w st model searchMode)) = coreMessages st"
  by (simp add: executeToolCall_def run_tool_call_coreMessages
      split: sum.splits option.splits)

lemma dispatch_search_missing:
  "tool tc = ''search'' \<Longrightarrow> \<not> truthy_str (opt_param tc p_query) \<Longrightarrow>
   dispatch c w model tc = (Inr (JSON_stringify c (error_object ''Search query missing.'')), [])"
  by (simp add: dispatch_def)

lemma dispatch_market_missing:
  "tool tc = ''getSolanaTokenMarketDataTool'' \<Longrightarrow>
   \<not> truthy_str (opt_param tc p_tokenSymbol) \<Longrightarrow> \<not> truthy_str (opt_param tc p_tokenMintAddress) \<Longrightarrow>
   dispatch c w model tc =
     (Inr (JSON_stringify c (error_object ''Token symbol or mint address missing for market data.'')), [])"
  by (simp add: dispatch_def)

lemma dispatch_market_called:
  "tool tc = ''getSolanaTokenMarketDataTool'' \<Longrightarrow>
   truthy_str (opt_param tc p_tokenSymbol) \<or> truthy_str (opt_param tc p_tokenMintAddress) \<Longrightarrow>
   dispatch c w model tc =
     (Inr (JSON_stringify c (js_of_market_result
             (getSolanaTokenMarketDataTool_execute w (market_params_of tc)))),
      [MarketDataCalled (market_params_of tc)])"
  by (auto simp add: dispatch_def)

lemma dispatch_unknown:
  "tool tc \<noteq> ''search'' \<Longrightarrow> tool tc \<noteq> ''getSolanaTokenMarketDataTool'' \<Longrightarrow>
   dispatch c w model tc =
     (Inr (JSON_stringify c (error_object (''Tool '' @ [CHR 0x27] @ tool tc @ [CHR 0x27] @
                          '' is not implemented or recognized.''))), [])"
  by (simp add: dispatch_def)

lemma dispatch_calls:
  "list_all (\<lambda>e. \<not> is_write e) (snd (dispatch c w model tc)) \<and> length (snd (dispatch c w model tc)) \<le> 1"
  by (simp add: dispatch_def split: sum.splits)

lemma dispatch_throws_iff:
  "(\<exists>e. fst (dispatch c w model tc) = Inl e) \<longleftrightarrow>
     tool tc = ''search'' \<and> truthy_str (opt_param tc p_query) \<and>
     (\<exists>e. executeSearchViaApi c (search_args_of model tc) = Inl e)"
  by (auto simp add: dispatch_def split: sum.splits)

lemma dispatch_aggregate_failure:
  assumes "tool tc = ''getSolanaTokenMarketDataTool''"
      and "truthy_str (opt_param tc p_tokenSymbol) \<or> truthy_str (opt_param tc p_tokenMintAddress)"
      and "truthy_str (b_error (fetchBirdeyeData w (market_params_of tc)))"
      and "truthy_str (s_error (fetchSolscanData w (market_params_of tc)))"
      and "\<not> truthy (b_price (fetchBirdeyeData w (market_params_of tc)))"
      and "\<not> truthy (s_circulatingSupply (fetchSolscanData w (market_params_of tc)))"
  shows "dispatch c w model tc =
     (Inr (JSON_stringify c (error_object
        (''Failed to fetch significant market data. Errors: '' @
         the (b_error (fetchBirdeyeData w (market_params_of tc))) @ ''; '' @
         the (s_error (fetchSolscanData w (market_params_of tc)))))),
      [MarketDataCalled (market_params_of tc)])"
proof -
  have "truthy_str (tokenSymbol (market_params_of tc)) \<or> truthy_str (tokenMintAddress (market_params_of tc))"
    using assms(2) by (simp add: market_params_of_def)
  from execute_cases [OF this, of w] assms(3-6)
  have "getSolanaTokenMarketDataTool_execute w (market_params_of tc) =
      ErrorObject (''Failed to fetch significant market data. Errors: '' @
         the (b_error (fetchBirdeyeData w (market_params_of tc))) @ ''; '' @
         the (s_error (fetchSolscanData w (market_params_of tc))))"
    by simp
  then show ?thesis
    using dispatch_market_called [OF assms(1,2), of c w model]
    by (simp add: js_of_market_result_def)
qed

lemma select_unknown:
  assumes "parseToolCallXml c completion None = Inr tc"
      and "tool tc \<noteq> []" and "tool tc \<noteq> ''search''" and "tool tc \<noteq> ''getSolanaTokenMarketDataTool''"
  shows "select_tool_call c completion = Inr (Some tc)"
  using assms by (simp add: select_tool_call_def and_then_def)

text \<open>
  Claim C2, as amended. Whenever a pass ends in a synthesized failure - a search call with
  no query, a market-data call with neither symbol nor mint address, or a market-data call
  whose two sources both failed with no usable field - the progress event written after
  the \<open>call\<close> event has state \<open>result\<close> and carries the serialised error object as
  its result. Between the two writes there is at most the adapter call.
\<close>

theorem synthesized_failure_reports_result:
  assumes llm: "generateText c model (last_five (coreMessages st)) = Inr completion"
      and sel: "select_tool_call c completion = Inr (Some tc)"
      and failure:
        "(tool tc = ''search'' \<and> \<not> truthy_str (opt_param tc p_query)) \<or>
         (tool tc = ''getSolanaTokenMarketDataTool'' \<and>
            \<not> truthy_str (opt_param tc p_tokenSymbol) \<and>
            \<not> truthy_str (opt_param tc p_tokenMintAddress)) \<or>
         (tool tc = ''getSolanaTokenMarketDataTool'' \<and>
            (truthy_str (opt_param tc p_tokenSymbol) \<or> truthy_str (opt_param tc p_tokenMintAddress)) \<and>
            truthy_str (b_error (fetchBirdeyeData w (market_params_of tc))) \<and>
            truthy_str (s_error (fetchSolscanData w (market_params_of tc))) \<and>
            \<not> truthy (b_price (fetchBirdeyeData w (market_params_of tc))) \<and>
            \<not> truthy (s_circulatingSupply (fetchSolscanData w (market_params_of tc))))"
  shows "\<exists>calls message.
           trace (snd (executeToolCall c w st model True)) =
             trace st @
             [WriteData \<lparr>state = StateCall, toolCallId = ''call_'' @ generateId c,
                toolName = tool tc,
                args = JSON_stringify c (js_of_parameters (parameters tc)), result = None\<rparr>] @
             calls @
             [WriteMessageAnnotation \<lparr>state = StateResult, toolCallId = ''call_'' @ generateId c,
                toolName = tool tc,
                args = JSON_stringify c (js_of_parameters (parameters tc)),
                result = JSON_stringify c (error_object message)\<rparr>]
         \<and> list_all (\<lambda>e. \<not> is_write e) calls"
proof -
  have ne: "tool tc \<noteq> []" using failure by auto
  have ex: "executeToolCall c w st model True =
           (Inr (fst (run_tool_call c w st model tc)), snd (run_tool_call c w st model tc))"
    using llm sel ne by (rule executeToolCall_selected)
  have "\<exists>calls message. dispatch c w model tc = (Inr (JSON_stringify c (error_object message)), calls)"
    using failure dispatch_search_missing [of tc c w model]
      dispatch_market_missing [of tc c w model] dispatch_aggregate_failure [of tc w c model]
    by metis
  then obtain calls message
    where d: "dispatch c w model tc = (Inr (JSON_stringify c (error_object message)), calls)"
    by blast
  have nw: "list_all (\<lambda>e. \<not> is_write e) calls"
    using dispatch_calls [of c w model tc] d by simp
  show ?thesis
    unfolding ex using nw
    by (simp only: snd_conv run_tool_call_trace d) auto
qed

text \<open>
  The theorem for a symbol-only market-data call on a network that is down: the adapter is
  called, both sources fail, and the event after \<open>call\<close> has state \<open>result\<close>.
\<close>

theorem synthesized_failure_reports_result_witness:
  "generateText (stub_collaborators tc_market_symbol) ''gpt-4o''
     (last_five (coreMessages st0)) = Inr stub_completion
   \<and> select_tool_call (stub_collaborators tc_market_symbol) stub_completion =
       Inr (Some tc_market_symbol)
   \<and> tool tc_market_symbol = ''getSolanaTokenMarketDataTool''
   \<and> truthy_str (opt_param tc_market_symbol p_tokenSymbol)
   \<and> (\<exists>calls message.
         trace (snd (executeToolCall (stub_collaborators tc_market_symbol) w_offline st0
                       ''gpt-4o'' True)) =
           trace st0 @
           [WriteData \<lparr>state = StateCall,
              toolCallId = ''call_'' @ generateId (stub_collaborators tc_market_symbol),
              toolName = tool tc_market_symbol,
              args = JSON_stringify (stub_collaborators tc_market_symbol)
                       (js_of_parameters (parameters tc_market_symbol)),
              result = None\<rparr>] @
           calls @
           [WriteMessageAnnotation \<lparr>state = StateResult,
              toolCallId = ''call_'' @ generateId (stub_collaborators tc_market_symbol),
              toolName = tool tc_market_symbol,
              args = JSON_stringify (stub_collaborators tc_market_symbol)
                       (js_of_parameters (parameters tc_market_symbol)),
              result = JSON_stringify (stub_collaborators tc_market_symbol)
                         (error_object message)\<rparr>]
       \<and> list_all (\<lambda>e. \<not> is_write e) calls)"
proof -
  have llm: "generateText (stub_collaborators tc_market_symbol) ''gpt-4o''
     (last_five (coreMessages st0)) = Inr stub_completion"
    by (simp add: stub_collaborators_def)
  have sel: "select_tool_call (stub_collaborators tc_market_symbol) stub_completion =
       Inr (Some tc_market_symbol)"
    by code_simp
  have t: "tool tc_market_symbol = ''getSolanaTokenMarketDataTool''" by code_simp
  have sym: "truthy_str (opt_param tc_market_symbol p_tokenSymbol)" by code_simp
  have src: "truthy_str (b_error (fetchBirdeyeData w_offline (market_params_of tc_market_symbol)))
        \<and> truthy_str (s_error (fetchSolscanData w_offline (market_params_of tc_market_symbol)))
        \<and> \<not> truthy (b_price (fetchBirdeyeData w_offline (market_params_of tc_market_symbol)))
        \<and> \<not> truthy (s_circulatingSupply (fetchSolscanData w_offline (market_params_of tc_market_symbol)))"
    by code_simp
  have failure:
    "(tool tc_market_symbol = ''search'' \<and> \<not> truthy_str (opt_param tc_market_symbol p_query)) \<or>
     (tool tc_market_symbol = ''getSolanaTokenMarketDataTool'' \<and>
        \<not> truthy_str (opt_param tc_market_symbol p_tokenSymbol) \<and>
        \<not> truthy_str (opt_param tc_market_symbol p_tokenMintAddress)) \<or>
     (tool tc_market_symbol = ''getSolanaTokenMarketDataTool'' \<and>
        (truthy_str (opt_param tc_market_symbol p_tokenSymbol) \<or>
         truthy_str (opt_param tc_market_symbol p_tokenMintAddress)) \<and>
        truthy_str (b_error (fetchBirdeyeData w_offline (market_params_of tc_market_symbol))) \<and>
        truthy_str (s_error (fetchSolscanData w_offline (market_params_of tc_market_symbol))) \<and>
        \<not> truthy (b_price (fetchBirdeyeData w_offline (market_params_of tc_market_symbol))) \<and>
        \<not> truthy (s_circulatingSupply (fetchSolscanData w_offline (market_params_of tc_market_symbol))))"
    using t sym src by blast
  from synthesized_failure_reports_result [OF llm sel failure] llm sel t sym
  show ?thesis by blast
qed

text \<open>
  Claim C2 as first stated fails: a search call with no query is rejected at validation,
  and the event written after the \<open>call\<close> event has state \<open>result\<close>, not \<open>error\<close>.
\<close>

theorem validation_failure_state_counterexample:
  "select_tool_call (stub_collaborators tc_search_no_query) stub_completion =
     Inr (Some tc_search_no_query)
   \<and> opt_param tc_search_no_query p_query = None
   \<and> trace (snd (executeToolCall (stub_collaborators tc_search_no_query) w_offline st0
                    ''gpt-4o'' True)) =
       [WriteData \<lparr>state = StateCall, toolCallId = ''call_abc'', toolName = ''search'',
                   args = Some ''{}'', result = None\<rparr>,
        WriteMessageAnnotation \<lparr>state = StateResult, toolCallId = ''call_abc'',
                   toolName = ''search'', args = Some ''{}'',
                   result = Some ''{error:Search query missing.}''\<rparr>]
   \<and> StateResult \<noteq> StateError"
  by code_simp

text \<open>
  Claim C3. For a parsed invocation that misses a required parameter - \<open>search\<close> with no
  query, or \<open>getSolanaTokenMarketDataTool\<close> with neither symbol nor mint address - the
  pass returns a result whose payload is the serialised error object, and all it does to
  the outside is write the two progress events: neither \<open>executeSearchViaApi\<close> nor
  \<open>getSolanaTokenMarketDataTool.execute\<close> is called.
\<close>

theorem validation_failure_no_adapter:
  assumes llm: "generateText c model (last_five (coreMessages st)) = Inr completion"
      and sel: "select_tool_call c completion = Inr (Some tc)"
      and missing: "(tool tc = ''search'' \<and> \<not> truthy_str (opt_param tc p_query)) \<or>
                    (tool tc = ''getSolanaTokenMarketDataTool'' \<and>
                     \<not> truthy_str (opt_param tc p_tokenSymbol) \<and>
                     \<not> truthy_str (opt_param tc p_tokenMintAddress))"
  shows "\<exists>r new payload.
           executeToolCall c w st model True = (Inr r, st\<lparr>trace := trace st @ new\<rparr>)
         \<and> payload = JSON_stringify c (error_object
              (if tool tc = ''search'' then ''Search query missing.''
               else ''Token symbol or mint address missing for market data.''))
         \<and> map_option ann_result (toolCallDataAnnotation r) = Some payload
         \<and> new = [WriteData \<lparr>state = StateCall, toolCallId = ''call_'' @ generateId c,
                      toolName = tool tc,
                      args = JSON_stringify c (js_of_parameters (parameters tc)), result = None\<rparr>,
                   WriteMessageAnnotation \<lparr>state = StateResult, toolCallId = ''call_'' @ generateId c,
                      toolName = tool tc,
                      args = JSON_stringify c (js_of_parameters (parameters tc)),
                      result = payload\<rparr>]
         \<and> list_all is_write new"
proof -
  have ne: "tool tc \<noteq> []" using missing by auto
  have d: "dispatch c w model tc =
      (Inr (JSON_stringify c (error_object
              (if tool tc = ''search'' then ''Search query missing.''
               else ''Token symbol or mint address missing for market data.''))), [])"
    using missing by (auto simp: dispatch_search_missing dispatch_market_missing)
  have ex: "executeToolCall c w st model True =
           (Inr (fst (run_tool_call c w st model tc)), snd (run_tool_call c w st model tc))"
    using llm sel ne by (rule executeToolCall_selected)
  have st': "snd (run_tool_call c w st model tc) =
     st\<lparr>trace := trace (snd (run_tool_call c w st model tc))\<rparr>"
    by (rule run_tool_call_state)
  show ?thesis
    unfolding ex
    apply (subst st')
    apply (simp only: run_tool_call_trace run_tool_call_result d)
    apply simp
    done
qed

text \<open>The theorem for a search call whose parameters hold no query.\<close>

theorem validation_failure_no_adapter_witness:
  "generateText (stub_collaborators tc_search_no_query) ''gpt-4o''
     (last_five (coreMessages st0)) = Inr stub_completion
   \<and> select_tool_call (stub_collaborators tc_search_no_query) stub_completion =
       Inr (Some tc_search_no_query)
   \<and> tool tc_search_no_query = ''search''
   \<and> \<not> truthy_str (opt_param tc_search_no_query p_query)
   \<and> (\<exists>r. executeToolCall (stub_collaborators tc_search_no_query) w_offline st0
              ''gpt-4o'' True =
            (Inr r,
             st0\<lparr>trace := trace st0 @
               [WriteData \<lparr>state = StateCall, toolCallId = ''call_abc'', toolName = ''search'',
                           args = Some ''{}'', result = None\<rparr>,
                WriteMessageAnnotation \<lparr>state = StateResult, toolCallId = ''call_abc'',
                           toolName = ''search'', args = Some ''{}'',
                           result = Some ''{error:Search query missing.}''\<rparr>]\<rparr>)
          \<and> map_option ann_result (toolCallDataAnnotation r) =
              Some (Some ''{error:Search query missing.}''))"
proof -
  have llm: "generateText (stub_collaborators tc_search_no_query) ''gpt-4o''
     (last_five (coreMessages st0)) = Inr stub_completion"
    by (simp add: stub_collaborators_def)
  have sel: "select_tool_call (stub_collaborators tc_search_no_query)
      stub_completion = Inr (Some tc_search_no_query)"
    by code_simp
  have t: "tool tc_search_no_query = ''search''" by code_simp
  have q: "\<not> truthy_str (opt_param tc_search_no_query p_query)" by code_simp
  have missing:
    "(tool tc_search_no_query = ''search'' \<and> \<not> truthy_str (opt_param tc_search_no_query p_query)) \<or>
     (tool tc_search_no_query = ''getSolanaTokenMarketDataTool'' \<and>
        \<not> truthy_str (opt_param tc_search_no_query p_tokenSymbol) \<and>
        \<not> truthy_str (opt_param tc_search_no_query p_tokenMintAddress))"
    using t q by blast
  have ev: "generateId (stub_collaborators tc_search_no_query) = ''abc''"
    "JSON_stringify (stub_collaborators tc_search_no_query)
       (js_of_parameters (parameters tc_search_no_query)) = Some ''{}''"
    "JSON_stringify (stub_collaborators tc_search_no_query)
       (error_object ''Search query missing.'') = Some ''{error:Search query missing.}''"
    by code_simp+
  from validation_failure_no_adapter [OF llm sel missing, of w_offline]
  have "\<exists>r. executeToolCall (stub_collaborators tc_search_no_query) w_offline st0
              ''gpt-4o'' True =
            (Inr r,
             st0\<lparr>trace := trace st0 @
               [WriteData \<lparr>state = StateCall, toolCallId = ''call_abc'', toolName = ''search'',
                           args = Some ''{}'', result = None\<rparr>,
                WriteMessageAnnotation \<lparr>state = StateResult, toolCallId = ''call_abc'',
                           toolName = ''search'', args = Some ''{}'',
                           result = Some ''{error:Search query missing.}''\<rparr>]\<rparr>)
          \<and> map_option ann_result (toolCallDataAnnotation r) =
              Some (Some ''{error:Search query missing.}'')"
    by (simp add: t ev)
  with llm sel t q show ?thesis by blast
qed

text \<open>
  Claim C5, as amended. For every pass in which a tool was selected - dispatched or
  rejected at validation - the orchestrator returns the annotation and exactly two new
  turns. The assistant turn carries the serialised tool result: the serialisation of what
  the search client returned, of what the market-data tool returned, or of the error object
  of the branch taken (a missing parameter, an unknown tool, an exception of the search
  client). The user turn carries the synthesis instruction, which is built from a fixed
  template and the name of the tool, and so depends on that name and on nothing else. The
  conversation it was given is the same after the call as before, whatever the outcome of
  the pass.
\<close>

theorem two_turns_and_frame:
  "coreMessages (snd (executeToolCall c w st model searchMode)) = coreMessages st
   \<and> (generateText c model (last_five (coreMessages st)) = Inr completion \<longrightarrow>
      select_tool_call c completion = Inr (Some tc) \<longrightarrow>
      tool tc \<noteq> [] \<longrightarrow>
      (\<exists>toolResultJson.
           toolResultJson =
             (if tool tc = ''search'' then
                (if \<not> truthy_str (opt_param tc p_query)
                 then JSON_stringify c (error_object ''Search query missing.'')
                 else (case executeSearchViaApi c (search_args_of model tc) of
                         Inr searchResults \<Rightarrow> JSON_stringify c searchResults
                       | Inl toolError \<Rightarrow>
                           JSON_stringify c
                             (error_object (''Failed to execute tool search: '' @
                                            message toolError))))
              else if tool tc = ''getSolanaTokenMarketDataTool'' then
                (if \<not> truthy_str (opt_param tc p_tokenSymbol)
                    \<and> \<not> truthy_str (opt_param tc p_tokenMintAddress)
                 then JSON_stringify c
                        (error_object ''Token symbol or mint address missing for market data.'')
                 else JSON_stringify c
                        (js_of_market_result
                           (getSolanaTokenMarketDataTool_execute w (market_params_of tc))))
              else JSON_stringify c
                     (error_object (''Tool '' @ [CHR 0x27] @ tool tc @ [CHR 0x27] @
                                    '' is not implemented or recognized.'')))
         \<and> fst (executeToolCall c w st model True) =
             Inr \<lparr>toolCallDataAnnotation =
                    Some \<lparr>ann_toolCallId = ''call_'' @ generateId c, ann_toolName = tool tc,
                          ann_args = JSON_stringify c (js_of_parameters (parameters tc)),
                          ann_result = toolResultJson\<rparr>,
                  toolCallMessages =
                    [\<lparr>role = Assistant,
                      content = ''[Tool Used: '' @ tool tc @ '']'' @ [CHR 0x0A] @ ''Output:'' @
                                [CHR 0x0A] @ template_str toolResultJson\<rparr>,
                     \<lparr>role = User, content = synthesis_instruction (tool tc)\<rparr>]\<rparr>))"
proof (intro conjI impI)
  show "coreMessages (snd (executeToolCall c w st model searchMode)) = coreMessages st"
    by (rule executeToolCall_coreMessages)
next
  assume llm: "generateText c model (last_five (coreMessages st)) = Inr completion"
    and sel: "select_tool_call c completion = Inr (Some tc)"
    and ne: "tool tc \<noteq> []"
  have ex: "executeToolCall c w st model True =
           (Inr (fst (run_tool_call c w st model tc)), snd (run_tool_call c w st model tc))"
    using llm sel ne by (rule executeToolCall_selected)
  have payload:
    "(case fst (dispatch c w model tc) of
        Inr r \<Rightarrow> r
      | Inl toolError \<Rightarrow>
          JSON_stringify c
            (error_object (''Failed to execute tool '' @ tool tc @ '': '' @ message toolError))) =
     (if tool tc = ''search'' then
        (if \<not> truthy_str (opt_param tc p_query)
         then JSON_stringify c (error_object ''Search query missing.'')
         else (case executeSearchViaApi c (search_args_of model tc) of
                 Inr searchResults \<Rightarrow> JSON_stringify c searchResults
               | Inl toolError \<Rightarrow>
                   JSON_stringify c
                     (error_object (''Failed to execute tool search: '' @ message toolError))))
      else if tool tc = ''getSolanaTokenMarketDataTool'' then
        (if \<not> truthy_str (opt_param tc p_tokenSymbol)
            \<and> \<not> truthy_str (opt_param tc p_tokenMintAddress)
         then JSON_stringify c
                (error_object ''Token symbol or mint address missing for market data.'')
         else JSON_stringify c
                (js_of_market_result
                   (getSolanaTokenMarketDataTool_execute w (market_params_of tc))))
      else JSON_stringify c
             (error_object (''Tool '' @ [CHR 0x27] @ tool tc @ [CHR 0x27] @
                            '' is not implemented or recognized.'')))"
    by (simp add: dispatch_def split: sum.splits)
  show "\<exists>toolResultJson.
           toolResultJson =
             (if tool tc = ''search'' then
                (if \<not> truthy_str (opt_param tc p_query)
                 then JSON_stringify c (error_object ''Search query missing.'')
                 else (case executeSearchViaApi c (search_args_of model tc) of
                         Inr searchResults \<Rightarrow> JSON_stringify c searchResults
                       | Inl toolError \<Rightarrow>
                           JSON_stringify c
                             (error_object (''Failed to execute tool search: '' @
                                            message toolError))))
              else if tool tc = ''getSolanaTokenMarketDataTool'' then
                (if \<not> truthy_str (opt_param tc p_tokenSymbol)
                    \<and> \<not> truthy_str (opt_param tc p_tokenMintAddress)
                 then JSON_stringify c
                        (error_object ''Token symbol or mint address missing for market data.'')
                 else JSON_stringify c
                        (js_of_market_result
                           (getSolanaTokenMarketDataTool_execute w (market_params_of tc))))
              else JSON_stringify c
                     (error_object (''Tool '' @ [CHR 0x27] @ tool tc @ [CHR 0x27] @
                                    '' is not implemented or recognized.'')))
         \<and> fst (executeToolCall c w st model True) =
             Inr \<lparr>toolCallDataAnnotation =
                    Some \<lparr>ann_toolCallId = ''call_'' @ generateId c, ann_toolName = tool tc,
                          ann_args = JSON_stringify c (js_of_parameters (parameters tc)),
                          ann_result = toolResultJson\<rparr>,
                  toolCallMessages =
                    [\<lparr>role = Assistant,
                      content = ''[Tool Used: '' @ tool tc @ '']'' @ [CHR 0x0A] @ ''Output:'' @
                                [CHR 0x0A] @ template_str toolResultJson\<rparr>,
                     \<lparr>role = User, content = synthesis_instruction (tool tc)\<rparr>]\<rparr>"
    unfolding ex fst_conv run_tool_call_result payload by blast
qed

text \<open>
  The theorem for a search call that reaches the search client, whose answer is what the
  assistant turn carries, and for a symbol-only market-data call on a network that is down,
  whose assistant turn carries the wholesale error of the tool.
\<close>

theorem two_turns_and_frame_witness:
  "generateText (stub_collaborators tc_search) ''gpt-4o''
     (last_five (coreMessages st0)) = Inr stub_completion
   \<and> select_tool_call (stub_collaborators tc_search) stub_completion = Inr (Some tc_search)
   \<and> tool tc_search \<noteq> []
   \<and> executeSearchViaApi (stub_collaborators tc_search) (search_args_of ''gpt-4o'' tc_search) =
       Inr (JObj [(''answer'', JStr ''NOS mint found'')])
   \<and> fst (executeToolCall (stub_collaborators tc_search) w_offline st0 ''gpt-4o'' True) =
       Inr \<lparr>toolCallDataAnnotation =
              Some \<lparr>ann_toolCallId = ''call_abc'', ann_toolName = ''search'',
                    ann_args = Some ''{query:NOS mint}'',
                    ann_result = Some ''{answer:NOS mint found}''\<rparr>,
            toolCallMessages =
              [\<lparr>role = Assistant,
                content = ''[Tool Used: search]'' @ [CHR 0x0A] @ ''Output:'' @ [CHR 0x0A] @
                          ''{answer:NOS mint found}''\<rparr>,
               \<lparr>role = User, content = synthesis_instruction ''search''\<rparr>]\<rparr>
   \<and> coreMessages (snd (executeToolCall (stub_collaborators tc_search) w_offline st0
                          ''gpt-4o'' True)) = coreMessages st0
   \<and> select_tool_call (stub_collaborators tc_market_symbol) stub_completion =
       Inr (Some tc_market_symbol)
   \<and> (\<exists>r. fst (executeToolCall (stub_collaborators tc_market_symbol) w_offline st0
                   ''gpt-4o'' True) = Inr r
          \<and> map content (toolCallMessages r) =
              [''[Tool Used: getSolanaTokenMarketDataTool]'' @ [CHR 0x0A] @ ''Output:'' @
               [CHR 0x0A] @
               ''{error:Failed to fetch significant market data. Errors: Birdeye: Mint address preferred for precise data.; Solscan: Mint address required for precise data.}'',
               synthesis_instruction ''getSolanaTokenMarketDataTool''])"
proof -
  have llm: "generateText (stub_collaborators tc_search) ''gpt-4o''
     (last_five (coreMessages st0)) = Inr stub_completion"
    by (simp add: stub_collaborators_def)
  have sel: "select_tool_call (stub_collaborators tc_search) stub_completion =
       Inr (Some tc_search)"
    by code_simp
  have ne: "tool tc_search \<noteq> []" by code_simp
  have t: "tool tc_search = ''search''" by code_simp
  have q: "truthy_str (opt_param tc_search p_query)" by code_simp
  have sr: "executeSearchViaApi (stub_collaborators tc_search)
       (search_args_of ''gpt-4o'' tc_search) = Inr (JObj [(''answer'', JStr ''NOS mint found'')])"
    by (simp add: stub_collaborators_def)
  have ev: "generateId (stub_collaborators tc_search) = ''abc''"
    "JSON_stringify (stub_collaborators tc_search) (js_of_parameters (parameters tc_search)) =
       Some ''{query:NOS mint}''"
    "JSON_stringify (stub_collaborators tc_search) (JObj [(''answer'', JStr ''NOS mint found'')]) =
       Some ''{answer:NOS mint found}''"
    by code_simp+
  note thm1 = two_turns_and_frame [of "stub_collaborators tc_search" w_offline st0 "''gpt-4o''"
      True stub_completion tc_search]
  from thm1 llm sel ne
  have r1: "fst (executeToolCall (stub_collaborators tc_search) w_offline st0 ''gpt-4o'' True) =
       Inr \<lparr>toolCallDataAnnotation =
              Some \<lparr>ann_toolCallId = ''call_abc'', ann_toolName = ''search'',
                    ann_args = Some ''{query:NOS mint}'',
                    ann_result = Some ''{answer:NOS mint found}''\<rparr>,
            toolCallMessages =
              [\<lparr>role = Assistant,
                content = ''[Tool Used: search]'' @ [CHR 0x0A] @ ''Output:'' @ [CHR 0x0A] @
                          ''{answer:NOS mint found}''\<rparr>,
               \<lparr>role = User, content = synthesis_instruction ''search''\<rparr>]\<rparr>"
    by (simp add: t q sr ev template_str_def)
  from thm1 have f1: "coreMessages (snd (executeToolCall (stub_collaborators tc_search) w_offline
      st0 ''gpt-4o'' True)) = coreMessages st0"
    by blast
  have llm2: "generateText (stub_collaborators tc_market_symbol) ''gpt-4o''
     (last_five (coreMessages st0)) = Inr stub_completion"
    by (simp add: stub_collaborators_def)
  have sel2: "select_tool_call (stub_collaborators tc_market_symbol) stub_completion =
       Inr (Some tc_market_symbol)"
    by code_simp
  have ne2: "tool tc_market_symbol \<noteq> []" by code_simp
  have t2: "tool tc_market_symbol = ''getSolanaTokenMarketDataTool''" by code_simp
  have sym: "truthy_str (opt_param tc_market_symbol p_tokenSymbol)" by code_simp
  have mr: "JSON_stringify (stub_collaborators tc_market_symbol)
      (js_of_market_result
         (getSolanaTokenMarketDataTool_execute w_offline (market_params_of tc_market_symbol))) =
      Some ''{error:Failed to fetch significant market data. Errors: Birdeye: Mint address preferred for precise data.; Solscan: Mint address required for precise data.}''"
    by code_simp
  from two_turns_and_frame [of "stub_collaborators tc_market_symbol" w_offline st0 "''gpt-4o''"
      True stub_completion tc_market_symbol] llm2 sel2 ne2
  have r2: "\<exists>r. fst (executeToolCall (stub_collaborators tc_market_symbol) w_offline st0
                   ''gpt-4o'' True) = Inr r
          \<and> map content (toolCallMessages r) =
              [''[Tool Used: getSolanaTokenMarketDataTool]'' @ [CHR 0x0A] @ ''Output:'' @
               [CHR 0x0A] @
               ''{error:Failed to fetch significant market data. Errors: Birdeye: Mint address preferred for precise data.; Solscan: Mint address required for precise data.}'',
               synthesis_instruction ''getSolanaTokenMarketDataTool'']"
    by (simp add: t2 sym mr template_str_def)
  from llm sel ne sr r1 f1 sel2 r2 show ?thesis by blast
qed

text \<open>
  Claim C5 as first stated fails in one point: the instruction of the user turn is not
  one fixed text. A pass that selects \<open>search\<close> and a pass that selects \<open>retrieve\<close>
  return user turns with different contents, since each names its tool.
\<close>

theorem instruction_not_fixed_counterexample:
  "\<exists>r1 r2.
     fst (executeToolCall (stub_collaborators tc_search) w_offline st0 ''gpt-4o'' True) = Inr r1
   \<and> fst (executeToolCall (stub_collaborators tc_unknown) w_offline st0 ''gpt-4o'' True) = Inr r2
   \<and> map role (toolCallMessages r1) = [Assistant, User]
   \<and> map role (toolCallMessages r2) = [Assistant, User]
   \<and> content (toolCallMessages r1 ! 1) \<noteq> content (toolCallMessages r2 ! 1)"
proof -
  have e1: "fst (executeToolCall (stub_collaborators tc_search) w_offline st0 ''gpt-4o'' True) =
      Inr (fst (run_tool_call (stub_collaborators tc_search) w_offline st0 ''gpt-4o'' tc_search))"
    by code_simp
  have e2: "fst (executeToolCall (stub_collaborators tc_unknown) w_offline st0 ''gpt-4o'' True) =
      Inr (fst (run_tool_call (stub_collaborators tc_unknown) w_offline st0 ''gpt-4o'' tc_unknown))"
    by code_simp
  have m1: "map role (toolCallMessages
      (fst (run_tool_call (stub_collaborators tc_search) w_offline st0 ''gpt-4o'' tc_search))) =
      [Assistant, User]"
    by code_simp
  have m2: "map role (toolCallMessages
      (fst (run_tool_call (stub_collaborators tc_unknown) w_offline st0 ''gpt-4o'' tc_unknown))) =
      [Assistant, User]"
    by code_simp
  have d: "content (toolCallMessages
      (fst (run_tool_call (stub_collaborators tc_search) w_offline st0 ''gpt-4o'' tc_search)) ! 1) \<noteq>
     content (toolCallMessages
      (fst (run_tool_call (stub_collaborators tc_unknown) w_offline st0 ''gpt-4o'' tc_unknown)) ! 1)"
    by code_simp
  show ?thesis
  proof (intro exI conjI)
    show "fst (executeToolCall (stub_collaborators tc_search) w_offline st0 ''gpt-4o'' True) =
      Inr (fst (run_tool_call (stub_collaborators tc_search) w_offline st0 ''gpt-4o'' tc_search))"
      by (rule e1)
    show "fst (executeToolCall (stub_collaborators tc_unknown) w_offline st0 ''gpt-4o'' True) =
      Inr (fst (run_tool_call (stub_collaborators tc_unknown) w_offline st0 ''gpt-4o'' tc_unknown))"
      by (rule e2)
  qed (rule m1, rule m2, rule d)
qed

text \<open>
  Claim C7. Within one tool call the pass writes exactly two progress events, both under
  the identifier of that call: first one with state \<open>call\<close>, before the dispatch, and
  last one with state \<open>result\<close> or \<open>error\<close>; what lies between them is at most one
  adapter call and no write.
\<close>

theorem progress_events_ordered:
  assumes llm: "generateText c model (last_five (coreMessages st)) = Inr completion"
      and sel: "select_tool_call c completion = Inr (Some tc)"
      and ne: "tool tc \<noteq> []"
  shows "\<exists>callEvent calls finalEvent.
           trace (snd (executeToolCall c w st model True)) =
             trace st @ [WriteData callEvent] @ calls @ [WriteMessageAnnotation finalEvent]
         \<and> state callEvent = StateCall
         \<and> (state finalEvent = StateResult \<or> state finalEvent = StateError)
         \<and> toolCallId callEvent = ''call_'' @ generateId c
         \<and> toolCallId finalEvent = ''call_'' @ generateId c
         \<and> list_all (\<lambda>e. \<not> is_write e) calls
         \<and> length calls \<le> 1"
proof -
  have ex: "executeToolCall c w st model True =
           (Inr (fst (run_tool_call c w st model tc)), snd (run_tool_call c w st model tc))"
    using llm sel ne by (rule executeToolCall_selected)
  have dc: "list_all (\<lambda>e. \<not> is_write e) (snd (dispatch c w model tc))"
    and dl: "length (snd (dispatch c w model tc)) \<le> 1"
    using dispatch_calls [of c w model tc] by simp_all
  show ?thesis
    unfolding ex
    apply (simp only: snd_conv run_tool_call_trace)
    apply (intro exI conjI)
          apply (rule refl)
         apply simp
        apply (simp split: sum.splits)
       apply simp
      apply simp
     apply (rule dc)
    apply (rule dl)
    done
qed

text \<open>The theorem for a market-data call, whose adapter call lies between the two writes.\<close>

theorem progress_events_ordered_witness:
  "generateText (stub_collaborators tc_market_symbol) ''gpt-4o''
     (last_five (coreMessages st0)) = Inr stub_completion
   \<and> select_tool_call (stub_collaborators tc_market_symbol) stub_completion =
       Inr (Some tc_market_symbol)
   \<and> tool tc_market_symbol \<noteq> []
   \<and> (\<exists>callEvent calls finalEvent.
         trace (snd (executeToolCall (stub_collaborators tc_market_symbol) w_offline st0
                       ''gpt-4o'' True)) =
           trace st0 @ [WriteData callEvent] @ calls @ [WriteMessageAnnotation finalEvent]
       \<and> state callEvent = StateCall
       \<and> (state finalEvent = StateResult \<or> state finalEvent = StateError)
       \<and> toolCallId callEvent = ''call_abc''
       \<and> toolCallId finalEvent = ''call_abc''
       \<and> list_all (\<lambda>e. \<not> is_write e) calls
       \<and> length calls \<le> 1)"
proof -
  have llm: "generateText (stub_collaborators tc_market_symbol) ''gpt-4o''
     (last_five (coreMessages st0)) = Inr stub_completion"
    by (simp add: stub_collaborators_def)
  have sel: "select_tool_call (stub_collaborators tc_market_symbol) stub_completion =
       Inr (Some tc_market_symbol)"
    by code_simp
  have ne: "tool tc_market_symbol \<noteq> []" by code_simp
  have gid: "''call_'' @ generateId (stub_collaborators tc_market_symbol) = ''call_abc''"
    by code_simp
  from progress_events_ordered [OF llm sel ne, of w_offline] llm sel ne
  show ?thesis unfolding gid by blast
qed

text \<open>
  Claim C10. An invocation whose tool name is not empty and is neither \<open>search\<close> nor
  \<open>getSolanaTokenMarketDataTool\<close> is not taken for the no-tool outcome: the pass writes
  the \<open>call\<close> and the \<open>result\<close> event and nothing else, and returns the annotation and
  the two turns, whose payload is the serialised object with the single field \<open>error\<close>
  saying that the tool is not implemented or recognized.
\<close>

theorem unknown_tool_not_implemented:
  assumes llm: "generateText c model (last_five (coreMessages st)) = Inr completion"
      and parsed: "parseToolCallXml c completion None = Inr tc"
      and ne: "tool tc \<noteq> []"
      and ns: "tool tc \<noteq> ''search''"
      and nm: "tool tc \<noteq> ''getSolanaTokenMarketDataTool''"
  shows "\<exists>payload.
           payload = JSON_stringify c (error_object
              (''Tool '' @ [CHR 0x27] @ tool tc @ [CHR 0x27] @ '' is not implemented or recognized.''))
         \<and> executeToolCall c w st model True =
             (Inr \<lparr>toolCallDataAnnotation =
                     Some \<lparr>ann_toolCallId = ''call_'' @ generateId c, ann_toolName = tool tc,
                           ann_args = JSON_stringify c (js_of_parameters (parameters tc)),
                           ann_result = payload\<rparr>,
                   toolCallMessages =
                     [\<lparr>role = Assistant,
                       content = ''[Tool Used: '' @ tool tc @ '']'' @ [CHR 0x0A] @ ''Output:'' @
                                 [CHR 0x0A] @ template_str payload\<rparr>,
                      \<lparr>role = User, content = synthesis_instruction (tool tc)\<rparr>]\<rparr>,
              st\<lparr>trace := trace st @
                    [WriteData \<lparr>state = StateCall, toolCallId = ''call_'' @ generateId c,
                       toolName = tool tc,
                       args = JSON_stringify c (js_of_parameters (parameters tc)), result = None\<rparr>,
                     WriteMessageAnnotation \<lparr>state = StateResult,
                       toolCallId = ''call_'' @ generateId c, toolName = tool tc,
                       args = JSON_stringify c (js_of_parameters (parameters tc)),
                       result = payload\<rparr>]\<rparr>)"
proof -
  have sel: "select_tool_call c completion = Inr (Some tc)"
    using parsed ne ns nm by (rule select_unknown)
  have ex: "executeToolCall c w st model True =
           (Inr (fst (run_tool_call c w st model tc)), snd (run_tool_call c w st model tc))"
    using llm sel ne by (rule executeToolCall_selected)
  have d: "dispatch c w model tc =
     (Inr (JSON_stringify c (error_object (''Tool '' @ [CHR 0x27] @ tool tc @ [CHR 0x27] @
                          '' is not implemented or recognized.''))), [])"
    using ns nm by (rule dispatch_unknown)
  have st': "snd (run_tool_call c w st model tc) =
     st\<lparr>trace := trace (snd (run_tool_call c w st model tc))\<rparr>"
    by (rule run_tool_call_state)
  show ?thesis
    unfolding ex
    apply (subst st')
    apply (simp only: run_tool_call_trace run_tool_call_result d)
    apply simp
    done
qed

text \<open>The theorem for a completion that names the tool \<open>retrieve\<close>.\<close>

theorem unknown_tool_not_implemented_witness:
  "generateText (stub_collaborators tc_unknown) ''gpt-4o''
     (last_five (coreMessages st0)) = Inr stub_completion
   \<and> parseToolCallXml (stub_collaborators tc_unknown) stub_completion None =
       Inr tc_unknown
   \<and> tool tc_unknown = ''retrieve''
   \<and> trace (snd (executeToolCall (stub_collaborators tc_unknown) w_offline st0
                    ''gpt-4o'' True)) =
       [WriteData \<lparr>state = StateCall, toolCallId = ''call_abc'', toolName = ''retrieve'',
                   args = Some ''{}'', result = None\<rparr>,
        WriteMessageAnnotation \<lparr>state = StateResult, toolCallId = ''call_abc'',
                   toolName = ''retrieve'', args = Some ''{}'',
                   result = JSON_stringify (stub_collaborators tc_unknown)
                     (error_object (''Tool '' @ [CHR 0x27] @ ''retrieve'' @ [CHR 0x27] @
                                    '' is not implemented or recognized.''))\<rparr>]"
proof -
  have llm: "generateText (stub_collaborators tc_unknown) ''gpt-4o''
     (last_five (coreMessages st0)) = Inr stub_completion"
    by (simp add: stub_collaborators_def)
  have parsed: "parseToolCallXml (stub_collaborators tc_unknown) stub_completion None =
       Inr tc_unknown"
    by code_simp
  have t: "tool tc_unknown = ''retrieve''" by code_simp
  have ne: "tool tc_unknown \<noteq> []" and ns: "tool tc_unknown \<noteq> ''search''"
    and nm: "tool tc_unknown \<noteq> ''getSolanaTokenMarketDataTool''"
    by (simp_all add: t)
  have ev: "generateId (stub_collaborators tc_unknown) = ''abc''"
    "JSON_stringify (stub_collaborators tc_unknown)
       (js_of_parameters (parameters tc_unknown)) = Some ''{}''"
    "trace st0 = []"
    by code_simp+
  from unknown_tool_not_implemented [OF llm parsed ne ns nm, of w_offline]
  have "trace (snd (executeToolCall (stub_collaborators tc_unknown) w_offline st0
                    ''gpt-4o'' True)) =
       [WriteData \<lparr>state = StateCall, toolCallId = ''call_abc'', toolName = ''retrieve'',
                   args = Some ''{}'', result = None\<rparr>,
        WriteMessageAnnotation \<lparr>state = StateResult, toolCallId = ''call_abc'',
                   toolName = ''retrieve'', args = Some ''{}'',
                   result = JSON_stringify (stub_collaborators tc_unknown)
                     (error_object (''Tool '' @ [CHR 0x27] @ ''retrieve'' @ [CHR 0x27] @
                                    '' is not implemented or recognized.''))\<rparr>]"
    by (simp add: t ev)
  with llm parsed t show ?thesis by blast
qed

section \<open>Properties of the retrieval tool and of the search provider\<close>

text \<open>\<open>slice(0, n)\<close> returns a string or an array of at most \<open>n\<close> elements, the value itself when it is that short.\<close>

lemma slice0_Inr:
  "slice0 v n = Inr c \<Longrightarrow>
     (\<exists>s. v = JStr s \<and> c = JStr (take n s)) \<or> (\<exists>xs. v = JArr xs \<and> c = JArr (take n xs))"
  by (cases v) (auto simp: slice0_def)

lemma slice0_capped:
  assumes "slice0 v n = Inr c"
  shows "js_length c \<le> n \<and> (js_length v \<le> n \<longrightarrow> c = v)
         \<and> ((\<exists>s. c = JStr s) \<or> (\<exists>xs. c = JArr xs))"
  using slice0_Inr [OF assms] by (auto simp: js_length_def)

lemma jina_try_Some:
  assumes "jina_try w target = Inr (Some r)"
  shows "\<exists>raw item. jina_provider_content w target = Inr raw
           \<and> slice0 raw CONTENT_CHARACTER_LIMIT = Inr (item_content item)
           \<and> results r = [item]"
  using assms
  by (auto simp: jina_try_def jina_provider_content_def and_then_Inr_iff split: if_splits)

lemma tavily_extract_try_Some:
  assumes "tavily_extract_try w target = Inr (Some r)"
  shows "\<exists>raw item. tavily_provider_content w target = Inr raw
           \<and> slice0 raw CONTENT_CHARACTER_LIMIT = Inr (item_content item)
           \<and> results r = [item]"
  using assms
  by (auto simp: tavily_extract_try_def tavily_provider_content_def and_then_Inr_iff split: if_splits)

lemma fetchJina_Some: "fetchJinaReaderData w target = Some r \<Longrightarrow> jina_try w target = Inr (Some r)"
  by (simp add: fetchJinaReaderData_def split: sum.splits)

lemma fetchTavily_Some: "fetchTavilyExtractData w target = Some r \<Longrightarrow> tavily_extract_try w target = Inr (Some r)"
  by (simp add: fetchTavilyExtractData_def split: sum.splits)

text \<open>A retrieved result comes from the backend the environment selects.\<close>

lemma retrieveTool_execute_Retrieved:
  "retrieveTool_execute w target = Retrieved r \<Longrightarrow>
     (truthy_str (JINA_API_KEY w) \<and> fetchJinaReaderData w target = Some r) \<or>
     (\<not> truthy_str (JINA_API_KEY w) \<and> fetchTavilyExtractData w target = Some r)"
  by (auto simp: retrieveTool_execute_def split: option.splits if_splits)

text \<open>
  Claim C8. For every successful retrieval, through the Jina backend or through the Tavily
  Extract backend, called directly or by the tool, the result holds one item; its content is the content the provider
  sent, cut by \<open>slice\<close> at 10,000: it has length at most 10,000, and it is the provider's
  content unchanged when that has length 10,000 or less.
\<close>

theorem retrieved_content_capped:
  assumes "(fetchJinaReaderData w target = Some r \<and> provider = jina_provider_content w target) \<or>
           (fetchTavilyExtractData w target = Some r \<and> provider = tavily_provider_content w target) \<or>
           (retrieveTool_execute w target = Retrieved r \<and>
            provider = (if truthy_str (JINA_API_KEY w) then jina_provider_content w target
                        else tavily_provider_content w target))"
  shows "\<exists>item raw.
           results r = [item]
         \<and> provider = Inr raw
         \<and> slice0 raw CONTENT_CHARACTER_LIMIT = Inr (item_content item)
         \<and> ((\<exists>s. item_content item = JStr s) \<or> (\<exists>xs. item_content item = JArr xs))
         \<and> js_length (item_content item) \<le> 10000
         \<and> (js_length raw \<le> 10000 \<longrightarrow> item_content item = raw)"
proof -
  from assms have
    "(fetchJinaReaderData w target = Some r \<and> provider = jina_provider_content w target) \<or>
     (fetchTavilyExtractData w target = Some r \<and> provider = tavily_provider_content w target)"
    using retrieveTool_execute_Retrieved [of w target r] by auto
  then obtain raw item where
    raw: "provider = Inr raw"
    and sl: "slice0 raw CONTENT_CHARACTER_LIMIT = Inr (item_content item)"
    and res: "results r = [item]"
    using jina_try_Some [OF fetchJina_Some, of w target r]
      tavily_extract_try_Some [OF fetchTavily_Some, of w target r]
    by blast
  from slice0_capped [OF sl] raw sl res show ?thesis
    by (intro exI [of _ item] exI [of _ raw]) (simp add: CONTENT_CHARACTER_LIMIT_def)
qed

text \<open>The theorem for a page of nine characters served to the Jina backend.\<close>

theorem retrieved_content_capped_witness:
  "fetchJinaReaderData w_serving ''https://a.io'' = Some retrieved_page
   \<and> jina_provider_content w_serving ''https://a.io'' = Inr (JStr ''page text'')
   \<and> (\<exists>item. results retrieved_page = [item]
          \<and> js_length (item_content item) \<le> 10000
          \<and> item_content item = JStr ''page text'')"
proof -
  have f: "fetchJinaReaderData w_serving ''https://a.io'' = Some retrieved_page"
    by code_simp
  have c: "jina_provider_content w_serving ''https://a.io'' = Inr (JStr ''page text'')"
    by code_simp
  have l: "js_length (JStr ''page text'') \<le> 10000"
    by (simp add: js_length_def)
  have h: "(fetchJinaReaderData w_serving ''https://a.io'' = Some retrieved_page
            \<and> jina_provider_content w_serving ''https://a.io'' =
                jina_provider_content w_serving ''https://a.io'') \<or>
           (fetchTavilyExtractData w_serving ''https://a.io'' = Some retrieved_page
            \<and> jina_provider_content w_serving ''https://a.io'' =
                tavily_provider_content w_serving ''https://a.io'') \<or>
           (retrieveTool_execute w_serving ''https://a.io'' = Retrieved retrieved_page
            \<and> jina_provider_content w_serving ''https://a.io'' =
                (if truthy_str (JINA_API_KEY w_serving)
                 then jina_provider_content w_serving ''https://a.io''
                 else tavily_provider_content w_serving ''https://a.io''))"
    using f by simp
  from retrieved_content_capped [OF h] c l
  have "\<exists>item. results retrieved_page = [item]
          \<and> js_length (item_content item) \<le> 10000
          \<and> item_content item = JStr ''page text''"
    by auto
  with f c show ?thesis by blast
qed

text \<open>
  Claim C9. The request the Tavily provider sends asks for \<open>max(maxResults, 5)\<close> results,
  never fewer than 5, where \<open>maxResults\<close> is 10 when the caller leaves it out; and its
  query is the caller's query, padded with spaces to length 5 when it is shorter than 5
  and unchanged otherwise.
\<close>

theorem tavily_request_minimums:
  assumes "tavily_search_request validateApiKey w q maxResults searchDepth includeDomains excludeDomains = Inr req"
  shows "\<exists>fields.
           req_body req = Some (JObj fields)
         \<and> map_of fields ''max_results'' =
             Some (JNum (max (case maxResults of None \<Rightarrow> 10 | Some n \<Rightarrow> n) 5))
         \<and> 5 \<le> max (case maxResults of None \<Rightarrow> 10 | Some n \<Rightarrow> n) 5
         \<and> map_of fields ''query'' = Some (JStr (filledQuery q))
         \<and> filledQuery q = (if length q < 5 then q @ replicate (5 - length q) CHR '' '' else q)
         \<and> (if length q < 5 then length (filledQuery q) = 5 else filledQuery q = q)"
  using assms
  by (auto simp: tavily_search_request_def and_then_Inr_iff opt_str_field_def filledQuery_def
      split: option.splits)

text \<open>The theorem for the query \<open>ab\<close> with three results requested.\<close>

theorem tavily_request_minimums_witness:
  "\<exists>req fields.
     tavily_search_request stub_validateApiKey w_serving ''ab'' (Some 3) None None None = Inr req
   \<and> req_body req = Some (JObj fields)
   \<and> map_of fields ''max_results'' = Some (JNum 5)
   \<and> map_of fields ''query'' = Some (JStr ''ab   '')"
proof -
  have "\<exists>req. tavily_search_request stub_validateApiKey w_serving ''ab'' (Some 3) None None None
          = Inr req"
    by (simp add: tavily_search_request_def stub_validateApiKey_def w_serving_def and_then_def
        truthy_str_def)
  then obtain req where
    r: "tavily_search_request stub_validateApiKey w_serving ''ab'' (Some 3) None None None = Inr req"
    by blast
  have q: "filledQuery ''ab'' = ''ab   ''" by code_simp
  from tavily_request_minimums [OF r] obtain fields where
    "req_body req = Some (JObj fields)"
    "map_of fields ''max_results'' = Some (JNum 5)"
    "map_of fields ''query'' = Some (JStr ''ab   '')"
    by (auto simp: q)
  with r show ?thesis by blast
qed

section \<open>Properties of the specified call parser\<close>

text \<open>The string functions, by what they find.\<close>

lemma starts_with_iff: "starts_with s p \<longleftrightarrow> (\<exists>r. s = p @ r)"
  by (induction s p rule: starts_with.induct) auto

lemma str_includes_iff: "str_includes s p \<longleftrightarrow> (\<exists>a b. s = a @ p @ b)"
proof (induction s)
  case Nil
  then show ?case by auto
next
  case (Cons c cs)
  show ?case
  proof
    assume "str_includes (c # cs) p"
    then consider "starts_with (c # cs) p" | "str_includes cs p" by auto
    then show "\<exists>a b. c # cs = a @ p @ b"
    proof cases
      case 1
      then obtain r where "c # cs = p @ r" by (auto simp: starts_with_iff)
      then have "c # cs = [] @ p @ r" by simp
      then show ?thesis by blast
    next
      case 2
      then obtain a b where "cs = a @ p @ b" using Cons.IH by blast
      then have "c # cs = (c # a) @ p @ b" by simp
      then show ?thesis by blast
    qed
  next
    assume "\<exists>a b. c # cs = a @ p @ b"
    then obtain a b where ab: "c # cs = a @ p @ b" by blast
    show "str_includes (c # cs) p"
    proof (cases a)
      case Nil
      then have "starts_with (c # cs) p" using ab by (auto simp: starts_with_iff)
      then show ?thesis by simp
    next
      case (Cons x xs)
      then have "cs = xs @ p @ b" using ab by simp
      then have "str_includes cs p" using Cons.IH by blast
      then show ?thesis by simp
    qed
  qed
qed

lemma after_first_Some: "after_first p s = Some r \<Longrightarrow> \<exists>a. s = a @ p @ r"
proof (induction s)
  case Nil
  then show ?case by (auto split: if_splits)
next
  case (Cons c cs)
  show ?case
  proof (cases "starts_with (c # cs) p")
    case True
    then obtain t where t: "c # cs = p @ t" by (auto simp: starts_with_iff)
    have "r = drop (length p) (c # cs)" using Cons.prems True by simp
    then have "r = t" by (simp only: t append_eq_conv_conj drop_append) simp
    then have "c # cs = [] @ p @ r" using t by simp
    then show ?thesis by blast
  next
    case False
    then have "after_first p cs = Some r" using Cons.prems by simp
    then obtain a where "cs = a @ p @ r" using Cons.IH by blast
    then have "c # cs = (c # a) @ p @ r" by simp
    then show ?thesis by blast
  qed
qed

lemma before_first_Some: "before_first p s = Some a \<Longrightarrow> \<exists>b. s = a @ p @ b"
proof (induction s arbitrary: a)
  case Nil
  then show ?case by (auto split: if_splits)
next
  case (Cons c cs)
  show ?case
  proof (cases "starts_with (c # cs) p")
    case True
    then obtain t where t: "c # cs = p @ t" by (auto simp: starts_with_iff)
    have "a = []" using Cons.prems True by simp
    then have "c # cs = a @ p @ t" using t by simp
    then show ?thesis by blast
  next
    case False
    then obtain a' where a': "before_first p cs = Some a'" and a: "a = c # a'"
      using Cons.prems by auto
    then obtain b where "cs = a' @ p @ b" using Cons.IH by blast
    then have "c # cs = a @ p @ b" using a by simp
    then show ?thesis by blast
  qed
qed

lemma element_Some:
  assumes "element name s = Some x"
  shows "\<exists>a b. s = a @ (''<'' @ name @ ''>'') @ x @ (''</'' @ name @ ''>'') @ b"
proof -
  from assms obtain rest where
    r: "after_first (''<'' @ name @ ''>'') s = Some rest"
    and x: "before_first (''</'' @ name @ ''>'') rest = Some x"
    by (auto simp: element_def split: option.splits)
  from after_first_Some [OF r] obtain a where a: "s = a @ (''<'' @ name @ ''>'') @ rest" by blast
  from before_first_Some [OF x] obtain b where b: "rest = x @ (''</'' @ name @ ''>'') @ b" by blast
  from a b show ?thesis by blast
qed

lemma element_includes:
  assumes "element name s = Some x"
  shows "str_includes s (''<'' @ name @ ''>'')" and "str_includes s (''</'' @ name @ ''>'')"
    and "str_includes x p \<Longrightarrow> str_includes s p"
proof -
  from element_Some [OF assms] obtain a b
    where s: "s = a @ (''<'' @ name @ ''>'') @ x @ (''</'' @ name @ ''>'') @ b" by blast
  show "str_includes s (''<'' @ name @ ''>'')"
    unfolding str_includes_iff using s by blast
  have "s = (a @ (''<'' @ name @ ''>'') @ x) @ (''</'' @ name @ ''>'') @ b" using s by simp
  then show "str_includes s (''</'' @ name @ ''>'')"
    unfolding str_includes_iff by blast
  assume "str_includes x p"
  then obtain u v where "x = u @ p @ v" unfolding str_includes_iff by blast
  then have "s = (a @ (''<'' @ name @ ''>'') @ u) @ p @ (v @ (''</'' @ name @ ''>'') @ b)"
    using s by simp
  then show "str_includes s p" unfolding str_includes_iff by blast
qed

lemma parse_named:
  assumes "tool (parseToolCallXml_spec d t schema) \<noteq> []"
  shows "str_includes t ''<tool_call>''" and "str_includes t ''</tool_call>''"
    and "str_includes t ''<tool>''" and "str_includes t ''</tool>''"
proof -
  from assms obtain block name where
    b: "element ''tool_call'' t = Some block" and n: "element ''tool'' block = Some name"
    by (auto simp: parseToolCallXml_spec_def no_tool_invocation_def split: option.splits if_splits)
  from element_includes(1,2) [OF b] show "str_includes t ''<tool_call>''" "str_includes t ''</tool_call>''"
    by simp_all
  from element_includes(1,2) [OF n] have "str_includes block ''<tool>''" "str_includes block ''</tool>''"
    by simp_all
  with element_includes(3) [OF b] show "str_includes t ''<tool>''" "str_includes t ''</tool>''"
    by simp_all
qed

lemma parse_tool_schema_independent:
  "tool (parseToolCallXml_spec d t schema) = tool (parseToolCallXml_spec d t None)"
  by (simp add: parseToolCallXml_spec_def no_tool_invocation_def split: option.splits)

lemma parse_empty_is_no_tool:
  "tool (parseToolCallXml_spec d t schema) = [] \<Longrightarrow> parseToolCallXml_spec d t schema = no_tool_invocation"
  by (auto simp: parseToolCallXml_spec_def no_tool_invocation_def split: option.splits if_splits)

lemma executeToolCall_no_tool:
  assumes "searchMode \<longrightarrow> (\<exists>completion tc. generateText c model (last_five (coreMessages st)) = Inr completion
            \<and> parseToolCallXml c completion None = Inr tc \<and> tool tc = [])"
  shows "executeToolCall c w st model searchMode = (Inr no_tool_result, st)"
  using assms
  by (auto simp: executeToolCall_def select_tool_call_def and_then_def)

text \<open>
  Claim C6, for the parser as specified. A completion with no tool block, with an unclosed
  or otherwise unparseable block, or with an empty tool name is parsed, under any schema,
  to the one no-tool invocation; the parser is a total function and has no exception to
  throw. Given such a completion, the orchestrator ends the pass with no annotation and no
  turn, and leaves the conversation and the data stream as they were.
\<close>

theorem no_tool_normalisation:
  assumes parser: "parseToolCallXml c = (\<lambda>t s. Inr (parseToolCallXml_spec d t s))"
      and llm: "generateText c model (last_five (coreMessages st)) = Inr completion"
      and malformed:
        "\<not> str_includes completion ''<tool_call>'' \<or> \<not> str_includes completion ''</tool_call>'' \<or>
         \<not> str_includes completion ''<tool>'' \<or> \<not> str_includes completion ''</tool>'' \<or>
         tool (parseToolCallXml_spec d completion None) = []"
  shows "parseToolCallXml_spec d completion schema = no_tool_invocation
       \<and> executeToolCall c w st model searchMode = (Inr no_tool_result, st)"
proof -
  have empty: "tool (parseToolCallXml_spec d completion None) = []"
    using malformed parse_named [of d completion None] by blast
  then have "tool (parseToolCallXml_spec d completion schema) = []"
    by (simp add: parse_tool_schema_independent [of d completion schema])
  then have p: "parseToolCallXml_spec d completion schema = no_tool_invocation"
    by (rule parse_empty_is_no_tool)
  have "parseToolCallXml c completion None = Inr (parseToolCallXml_spec d completion None)"
    by (simp add: parser)
  with llm empty have "executeToolCall c w st model searchMode = (Inr no_tool_result, st)"
    by (intro executeToolCall_no_tool) blast
  with p show ?thesis by simp
qed

text \<open>
  The theorem for the completion \<open><tool_call><tool></tool></tool_call>\<close>, and for a
  completion with no markup at all.
\<close>

theorem no_tool_normalisation_witness:
  "tool (parseToolCallXml_spec 7 completion_no_tool None) = []
   \<and> parseToolCallXml_spec 7 completion_no_tool (Some searchSchema) = no_tool_invocation
   \<and> executeToolCall (spec_collaborators completion_no_tool) w_offline st0 ''gpt-4o'' True =
       (Inr \<lparr>toolCallDataAnnotation = None, toolCallMessages = []\<rparr>, st0)
   \<and> \<not> str_includes completion_plain ''<tool>''
   \<and> parseToolCallXml_spec 7 completion_plain None = no_tool_invocation
   \<and> executeToolCall (spec_collaborators completion_plain) w_offline st0 ''gpt-4o'' True =
       (Inr \<lparr>toolCallDataAnnotation = None, toolCallMessages = []\<rparr>, st0)"
proof -
  have p1: "parseToolCallXml (spec_collaborators completion_no_tool) =
      (\<lambda>t s. Inr (parseToolCallXml_spec 7 t s))"
    and p2: "parseToolCallXml (spec_collaborators completion_plain) =
      (\<lambda>t s. Inr (parseToolCallXml_spec 7 t s))"
    by (simp_all add: spec_collaborators_def)
  have l1: "generateText (spec_collaborators completion_no_tool) ''gpt-4o''
      (last_five (coreMessages st0)) = Inr completion_no_tool"
    and l2: "generateText (spec_collaborators completion_plain) ''gpt-4o''
      (last_five (coreMessages st0)) = Inr completion_plain"
    by (simp_all add: spec_collaborators_def)
  have e1: "tool (parseToolCallXml_spec 7 completion_no_tool None) = []" by code_simp
  have e2: "\<not> str_includes completion_plain ''<tool>''" by code_simp
  have m1: "\<not> str_includes completion_no_tool ''<tool_call>'' \<or>
            \<not> str_includes completion_no_tool ''</tool_call>'' \<or>
            \<not> str_includes completion_no_tool ''<tool>'' \<or>
            \<not> str_includes completion_no_tool ''</tool>'' \<or>
            tool (parseToolCallXml_spec 7 completion_no_tool None) = []"
    using e1 by blast
  have m2: "\<not> str_includes completion_plain ''<tool_call>'' \<or>
            \<not> str_includes completion_plain ''</tool_call>'' \<or>
            \<not> str_includes completion_plain ''<tool>'' \<or>
            \<not> str_includes completion_plain ''</tool>'' \<or>
            tool (parseToolCallXml_spec 7 completion_plain None) = []"
    using e2 by blast
  from no_tool_normalisation [OF p1 l1 m1, of "Some searchSchema" w_offline True]
    no_tool_normalisation [OF p2 l2 m2, of None w_offline True] e1 e2
  show ?thesis by (simp add: no_tool_result_def)
qed

end
